theory Spec2Isabelle
  imports Complex_Main "HOL-Library.Word"
begin

unbundle bit_operations_syntax

section \<open>Entities, errors and plain data\<close>

text \<open>
  Modelled from the spec: \<open>EntityRef\<close>, \<open>EntityPtr\<close> and \<open>INVALID_ENTITY\<close> are declared in
  engine headers that are not part of the sources at hand. The spec calls entities
  "opaque integer identifiers (\<open>EntityRef\<close>, validity-checked \<open>EntityPtr\<close>)" with an
  "invalid-entity sentinel"; the code reads their \<open>index\<close> member as an \<open>int\<close>. An entity
  is its index; the sentinel is a negative index.
\<close>

type_synonym entity = int

definition INVALID_ENTITY :: entity where
  "INVALID_ENTITY = -1"

definition isValid :: "entity \<Rightarrow> bool" where
  "isValid e = (0 \<le> e)"

text \<open>
  Every way an operation of the scene can stop instead of returning: a failed \<open>ASSERT\<close>,
  a lookup of a key a table does not hold (the spec: such lookups "fail loudly"), a null
  pointer that is dereferenced, an array read outside its bounds, a read past the end of
  a binary stream.
\<close>

datatype error = AssertFailed | KeyNotFound | NullDeref | OutOfBounds | EndOfBlob

text \<open>Running one operation after another; the first error ends the run.\<close>

definition bindE :: "error + 'a \<Rightarrow> ('a \<Rightarrow> error + 'b) \<Rightarrow> error + 'b" where
  "bindE r f = (case r of Inl err \<Rightarrow> Inl err | Inr x \<Rightarrow> f x)"

text \<open>
  Floating-point members are stored and copied by the scene; they are modelled as reals.
  \<open>Vec3\<close> and \<open>DVec3\<close> are triples, \<open>Vec4\<close> and \<open>Quat\<close> quadruples.
\<close>

type_synonym Vec3 = "real \<times> real \<times> real"
type_synonym DVec3 = "real \<times> real \<times> real"
type_synonym Vec4 = "real \<times> real \<times> real \<times> real"
type_synonym Quat = "real \<times> real \<times> real \<times> real"
type_synonym byte = "8 word"

datatype ComponentType =
    MODEL_INSTANCE_TYPE | DECAL_TYPE | POINT_LIGHT_TYPE | PARTICLE_EMITTER_TYPE
  | GLOBAL_LIGHT_TYPE | CAMERA_TYPE | TERRAIN_TYPE | BONE_ATTACHMENT_TYPE
  | ENVIRONMENT_PROBE_TYPE | TEXT_MESH_TYPE


section \<open>The data of the render scene\<close>

subsection \<open>Component structs\<close>

record PointLight =
  m_diffuse_color :: Vec3
  m_specular_color :: Vec3
  m_diffuse_intensity :: real
  m_specular_intensity :: real
  m_entity :: entity
  m_fov :: real
  m_attenuation_param :: real
  m_range :: real
  m_cast_shadows :: bool

record GlobalLight =
  gl_diffuse_color :: Vec3
  gl_diffuse_intensity :: real
  gl_indirect_intensity :: real
  gl_fog_color :: Vec3
  gl_fog_density :: real
  gl_fog_bottom :: real
  gl_fog_height :: real
  gl_entity :: entity
  gl_cascades :: Vec4

record Camera =
  cam_entity :: entity
  cam_fov :: real
  cam_aspect :: real
  cam_near :: real
  cam_far :: real
  cam_ortho_size :: real
  cam_screen_width :: real
  cam_screen_height :: real
  cam_is_ortho :: bool

text \<open>
  \<open>EnvironmentProbe\<close>: the three textures are pointers to resources (a resource is named
  by a number, \<open>None\<close> is the null pointer); \<open>flags\<close> is a \<open>FlagSet<Flags, u32>\<close> whose
  \<open>base\<close> is written to the stream as it is.
\<close>

record EnvironmentProbe =
  probe_texture :: "nat option"
  probe_irradiance :: "nat option"
  probe_radiance :: "nat option"
  probe_radius :: real
  probe_guid :: "64 word"
  probe_flags :: "32 word"
  probe_radiance_size :: "16 word"
  probe_irradiance_size :: "16 word"
  probe_reflection_size :: "16 word"

definition PROBE_REFLECTION :: "32 word" where
  "PROBE_REFLECTION = push_bit 0 1"

definition PROBE_OVERRIDE_GLOBAL_SIZE :: "32 word" where
  "PROBE_OVERRIDE_GLOBAL_SIZE = push_bit 1 1"

definition PROBE_ENABLED :: "32 word" where
  "PROBE_ENABLED = push_bit 2 1"

record LocalRigidTransform =
  lrt_pos :: Vec3
  lrt_rot :: Quat

record Transform =
  tr_pos :: DVec3
  tr_rot :: Quat
  tr_scale :: real

record BoneAttachment =
  ba_entity :: entity
  ba_parent_entity :: entity
  ba_bone_index :: int
  ba_relative_transform :: LocalRigidTransform

record Decal =
  decal_material :: "nat option"
  decal_entity :: entity
  decal_scale :: Vec3

record TextMesh =
  tm_text :: string
  tm_color :: "32 word"
  tm_font_size :: int
  tm_font_resource :: "string option"

text \<open>
  \<open>Pose\<close> (\<open>renderer/pose.h\<close>) as the scene reads it: the bone count, the bone positions
  and rotations, and whether they are absolute.
\<close>

record Pose =
  pose_count :: int
  pose_positions :: "Vec3 list"
  pose_rotations :: "Quat list"
  pose_is_absolute :: bool

record Mesh =
  mesh_material :: "nat option"
  mesh_layer_mask :: "64 word"

text \<open>
  The \<open>meshes\<close> pointer of a model instance is null, or points at the mesh array of a
  model (the shared view \<open>&model->getMesh(0)\<close>), or at an array the instance owns (its
  custom meshes).
\<close>

datatype MeshesPtr = NoMeshes | ModelMeshes nat | OwnMeshes "Mesh list"

text \<open>
  Modelled from the spec: \<open>ModelInstance\<close> and its flags are declared in
  \<open>render_scene.h\<close>, which is not among the sources. The spec: "Flags: enabled,
  has-custom-meshes, is-parent-of-a-bone-attachment"; "intrusive doubly-linked list
  pointers (\<open>prev_model\<close>/\<open>next_model\<close>)". The members are those the scene's code reads and
  writes. A \<open>FlagSet\<close> is the set of the flags that are set.
\<close>

datatype ModelInstanceFlag = CUSTOM_MESHES | IS_BONE_ATTACHMENT_PARENT | ENABLED

record ModelInstance =
  mi_model :: "nat option"
  mi_pose :: "Pose option"
  mi_entity :: entity
  mi_meshes :: MeshesPtr
  mi_flags :: "ModelInstanceFlag set"
  mi_mesh_count :: int
  mi_next_model :: entity
  mi_prev_model :: entity

subsection \<open>External collaborators\<close>

text \<open>
  \<open>RayCastModelHit\<close>, as far as \<open>castRay\<close> reads and writes it. The mesh pointer names a
  mesh by a number.
\<close>

record RayCastModelHit =
  hit_is_hit :: bool
  hit_t :: real
  hit_origin :: DVec3
  hit_dir :: Vec3
  hit_mesh :: "nat option"
  hit_entity :: entity
  hit_component_type :: "ComponentType option"

text \<open>
  A model resource, as the scene consumes it: its ready state, bounding radius, bone
  count, authored meshes, rest pose, path hash, its selection of a mesh-index range for a
  scaled squared distance (\<open>getLODMeshIndices\<close>) and its precise ray cast. A material
  resource: its ready state, its render-layer mask and its path. A terrain: its entity and
  its ray cast. A particle emitter: its entity and the path of its resource.
\<close>

record Model =
  model_isReady :: bool
  model_BoundingRadius :: real
  model_BoneCount :: int
  model_meshes :: "Mesh list"
  model_pose :: Pose
  model_path_hash :: "32 word"
  model_LODMeshIndices :: "real \<Rightarrow> int \<times> int"
  model_castRay :: "Vec3 \<Rightarrow> Vec3 \<Rightarrow> Pose option \<Rightarrow> RayCastModelHit"

record Material =
  material_isReady :: bool
  material_RenderLayerMask :: "64 word"
  material_path :: string

record Terrain =
  terrain_entity :: entity
  terrain_castRay :: "DVec3 \<Rightarrow> Vec3 \<Rightarrow> RayCastModelHit"

record ParticleEmitter =
  emitter_entity :: entity
  emitter_resource :: "string option"

text \<open>
  The resource manager of the engine: the model and the material behind each pointer.
\<close>

record Engine =
  eng_models :: "nat \<Rightarrow> Model"
  eng_materials :: "nat \<Rightarrow> Material"

text \<open>
  The universe: the transform of every entity and the registry of components, which
  \<open>onComponentCreated\<close> and \<open>onComponentDestroyed\<close> keep.
\<close>

record Universe =
  u_transforms :: "entity \<Rightarrow> Transform"
  u_components :: "(entity \<times> ComponentType) set"

subsection \<open>The scene\<close>

text \<open>
  The members of \<open>RenderSceneImpl\<close>. An \<open>Array\<close> is a list. A \<open>HashMap\<close> that the code
  only looks up is a map; a \<open>HashMap\<close> or \<open>AssociativeArray\<close> that the code iterates is an
  association list in the order of the iteration. The culling system is the set of the
  entities added to it.
\<close>

record scene =
  m_universe :: Universe
  m_engine :: Engine
  m_culling_system :: "entity set"
  m_active_global_light_entity :: entity
  m_point_lights_map :: "entity \<rightharpoonup> int"
  m_decals :: "(entity \<times> Decal) list"
  m_model_instances :: "ModelInstance list"
  m_global_lights :: "(entity \<times> GlobalLight) list"
  m_point_lights :: "PointLight list"
  m_cameras :: "(entity \<times> Camera) list"
  m_active_camera :: entity
  m_text_meshes :: "(entity \<times> TextMesh) list"
  m_bone_attachments :: "(entity \<times> BoneAttachment) list"
  m_environment_probes :: "(entity \<times> EnvironmentProbe) list"
  m_terrains :: "(entity \<times> Terrain) list"
  m_particle_emitters :: "(entity \<times> ParticleEmitter) list"
  m_lod_multiplier :: real
  m_is_updating_attachments :: bool
  m_is_grass_enabled :: bool
  m_is_game_running :: bool
  m_model_entity_map :: "nat \<rightharpoonup> entity"
  m_custom_mesh_callbacks :: "nat \<rightharpoonup> entity list"

text \<open>The constructor: every table empty, no active camera or light.\<close>

definition RenderSceneImpl :: "Universe \<Rightarrow> Engine \<Rightarrow> scene" where
  "RenderSceneImpl universe engine =
     \<lparr>m_universe = universe, m_engine = engine, m_culling_system = {},
      m_active_global_light_entity = INVALID_ENTITY, m_point_lights_map = Map.empty,
      m_decals = [], m_model_instances = [], m_global_lights = [], m_point_lights = [],
      m_cameras = [], m_active_camera = INVALID_ENTITY, m_text_meshes = [],
      m_bone_attachments = [], m_environment_probes = [], m_terrains = [],
      m_particle_emitters = [], m_lod_multiplier = 1, m_is_updating_attachments = False,
      m_is_grass_enabled = True, m_is_game_running = False,
      m_model_entity_map = Map.empty, m_custom_mesh_callbacks = Map.empty\<rparr>"

definition onComponentCreated :: "scene \<Rightarrow> entity \<Rightarrow> ComponentType \<Rightarrow> scene" where
  "onComponentCreated s e t =
     s\<lparr>m_universe := (m_universe s)\<lparr>u_components := insert (e, t) (u_components (m_universe s))\<rparr>\<rparr>"

definition onComponentDestroyed :: "scene \<Rightarrow> entity \<Rightarrow> ComponentType \<Rightarrow> scene" where
  "onComponentDestroyed s e t =
     s\<lparr>m_universe := (m_universe s)\<lparr>u_components := u_components (m_universe s) - {(e, t)}\<rparr>\<rparr>"

definition hasComponent :: "scene \<Rightarrow> entity \<Rightarrow> ComponentType \<Rightarrow> bool" where
  "hasComponent s e t = ((e, t) \<in> u_components (m_universe s))"

section \<open>Point lights: dense array and side map\<close>

text \<open>
  Modelled from the spec: \<open>Array::eraseFast\<close> lives in \<open>engine/array.h\<close>, which is not
  among the sources. The spec: "removal does fast swap-to-end", "removal swaps the last
  element into the freed slot". An index outside the array leaves the array as it is.
\<close>

definition eraseFast :: "'a list \<Rightarrow> int \<Rightarrow> 'a list" where
  "eraseFast xs index =
     (if 0 \<le> index \<and> index < int (length xs)
      then (if nat index \<noteq> length xs - 1
            then butlast (xs[nat index := last xs])
            else butlast xs)
      else xs)"

text \<open>
  \<open>destroyPointLight\<close>, statement by statement: read the slot from the side map, erase the
  slot fast, erase the key, and when a light now stands in the slot, write the slot under
  that light's entity; then tell the universe. \<open>HashMap::operator[]\<close> on a key that is
  absent is a contract violation.
\<close>

definition destroyPointLight :: "scene \<Rightarrow> entity \<Rightarrow> error + scene" where
  "destroyPointLight s entity =
     (case m_point_lights_map s entity of
        None \<Rightarrow> Inl KeyNotFound
      | Some index \<Rightarrow>
          let lights = eraseFast (m_point_lights s) index;
              lmap = (m_point_lights_map s)(entity := None)
          in if index < int (length lights)
             then (if index < 0 then Inl OutOfBounds
                   else case lmap (m_entity (lights ! nat index)) of
                     None \<Rightarrow> Inl KeyNotFound
                   | Some old \<Rightarrow>
                       Inr (onComponentDestroyed
                             (s\<lparr>m_point_lights := lights,
                                 m_point_lights_map := lmap(m_entity (lights ! nat index) \<mapsto> index)\<rparr>)
                             entity POINT_LIGHT_TYPE))
             else Inr (onComponentDestroyed
                        (s\<lparr>m_point_lights := lights, m_point_lights_map := lmap\<rparr>)
                        entity POINT_LIGHT_TYPE))"

text \<open>
  Modelled from the spec: \<open>Math::degreesToRadians\<close> lives in \<open>engine/math_utils.h\<close>, which
  is not among the sources; the spec writes the angles in degrees ("60\<degree>").
\<close>

definition degreesToRadians :: "real \<Rightarrow> real" where
  "degreesToRadians angle = angle * pi / 180"

text \<open>\<open>createPointLight\<close> appends a light with the default values and records its slot.\<close>

definition createPointLight :: "scene \<Rightarrow> entity \<Rightarrow> scene" where
  "createPointLight s entity =
     (let light = \<lparr>m_diffuse_color = (1, 1, 1), m_specular_color = (1, 1, 1),
                    m_diffuse_intensity = 1, m_specular_intensity = 1,
                    m_entity = entity, m_fov = degreesToRadians 360, m_attenuation_param = 2,
                    m_range = 10, m_cast_shadows = False\<rparr>
      in onComponentCreated
           (s\<lparr>m_point_lights := m_point_lights s @ [light],
               m_point_lights_map :=
                 (m_point_lights_map s)(entity \<mapsto> int (length (m_point_lights s)))\<rparr>)
           entity POINT_LIGHT_TYPE)"

text \<open>
  The side map is correct when it holds exactly the entities of the array, each under the
  slot at which its light stands.
\<close>

definition lights_consistent :: "scene \<Rightarrow> bool" where
  "lights_consistent s =
     (\<forall>e i. m_point_lights_map s e = Some i \<longleftrightarrow>
        (0 \<le> i \<and> i < int (length (m_point_lights s)) \<and> m_entity (m_point_lights s ! nat i) = e))"

text \<open>
  A universe in which every entity stands at the origin, unrotated and unscaled, with no
  component; an engine none of whose resources is ready.
\<close>

definition rest_transform :: Transform where
  "rest_transform = \<lparr>tr_pos = (0, 0, 0), tr_rot = (0, 0, 0, 1), tr_scale = 1\<rparr>"

definition blank_universe :: Universe where
  "blank_universe = \<lparr>u_transforms = (\<lambda>e. rest_transform), u_components = {}\<rparr>"

definition no_hit :: RayCastModelHit where
  "no_hit = \<lparr>hit_is_hit = False, hit_t = 0, hit_origin = (0, 0, 0), hit_dir = (0, 0, 0),
             hit_mesh = None, hit_entity = INVALID_ENTITY, hit_component_type = None\<rparr>"

definition blank_pose :: Pose where
  "blank_pose = \<lparr>pose_count = 0, pose_positions = [], pose_rotations = [],
                 pose_is_absolute = True\<rparr>"

definition blank_model :: Model where
  "blank_model = \<lparr>model_isReady = False, model_BoundingRadius = 0, model_BoneCount = 0,
                  model_meshes = [], model_pose = blank_pose, model_path_hash = 0,
                  model_LODMeshIndices = (\<lambda>d. (0, -1)),
                  model_castRay = (\<lambda>origin dir pose. no_hit)\<rparr>"

definition blank_material :: Material where
  "blank_material = \<lparr>material_isReady = False, material_RenderLayerMask = 0,
                     material_path = []\<rparr>"

definition blank_engine :: Engine where
  "blank_engine = \<lparr>eng_models = (\<lambda>m. blank_model), eng_materials = (\<lambda>m. blank_material)\<rparr>"

text \<open>Three lights, created in this order for the entities 4, 9 and 2.\<close>

definition three_lights :: scene where
  "three_lights =
     createPointLight (createPointLight (createPointLight
       (RenderSceneImpl blank_universe blank_engine) 4) 9) 2"

subsection \<open>The fast-swap-erase invariant\<close>

lemma createPointLight_consistent:
  assumes "lights_consistent s" "m_point_lights_map s e = None"
  shows "lights_consistent (createPointLight s e)"
  unfolding lights_consistent_def
proof (intro allI iffI)
  fix e' j
  let ?s' = "createPointLight s e"
  have len: "length (m_point_lights ?s') = Suc (length (m_point_lights s))"
    by (simp add: createPointLight_def Let_def onComponentCreated_def)
  assume a: "m_point_lights_map ?s' e' = Some j"
  show "0 \<le> j \<and> j < int (length (m_point_lights ?s')) \<and> m_entity (m_point_lights ?s' ! nat j) = e'"
  proof (cases "e' = e")
    case True
    with a have "j = int (length (m_point_lights s))" by (simp add: createPointLight_def Let_def onComponentCreated_def)
    thus ?thesis using True by (simp add: createPointLight_def Let_def onComponentCreated_def)
  next
    case False
    with a have "m_point_lights_map s e' = Some j" by (simp add: createPointLight_def Let_def onComponentCreated_def)
    with assms(1) have "0 \<le> j \<and> j < int (length (m_point_lights s)) \<and> m_entity (m_point_lights s ! nat j) = e'"
      unfolding lights_consistent_def by blast
    thus ?thesis by (simp add: createPointLight_def Let_def onComponentCreated_def nth_append nat_less_iff)
  qed
next
  fix e' j
  let ?s' = "createPointLight s e"
  assume b: "0 \<le> j \<and> j < int (length (m_point_lights ?s')) \<and> m_entity (m_point_lights ?s' ! nat j) = e'"
  show "m_point_lights_map ?s' e' = Some j"
  proof (cases "nat j = length (m_point_lights s)")
    case True
    with b have "e' = e" and "j = int (length (m_point_lights s))"
      by (auto simp: createPointLight_def Let_def onComponentCreated_def)
    thus ?thesis by (simp add: createPointLight_def Let_def onComponentCreated_def)
  next
    case False
    with b have lt: "j < int (length (m_point_lights s))" and e': "m_entity (m_point_lights s ! nat j) = e'"
      by (auto simp: createPointLight_def Let_def onComponentCreated_def nth_append nat_less_iff split: if_splits)
    with b assms(1) have old: "m_point_lights_map s e' = Some j"
      unfolding lights_consistent_def by blast
    with assms(2) have "e' \<noteq> e" by auto
    with old show ?thesis by (simp add: createPointLight_def Let_def onComponentCreated_def)
  qed
qed

lemma three_lights_consistent: "lights_consistent three_lights"
  unfolding three_lights_def
  by (intro createPointLight_consistent) (simp_all add: lights_consistent_def createPointLight_def onComponentCreated_def RenderSceneImpl_def)

text \<open>
  Claim C6. In a scene whose side map is consistent with the dense array, destroying the
  point light of entity \<open>e\<close> that stands at slot \<open>i\<close>, where \<open>i\<close> is not the last slot,
  succeeds; the array afterwards is the old one with its last light moved into slot \<open>i\<close>
  and the last slot dropped; the side map sends the moved light's entity to \<open>i\<close>, no longer
  holds \<open>e\<close>, and is again consistent with the array, so every remaining light is found at
  the slot the map gives.
\<close>

theorem destroyPointLight_swaps_last:
  assumes inv: "lights_consistent s"
    and at: "m_point_lights_map s e = Some i"
    and notlast: "nat i \<noteq> length (m_point_lights s) - 1"
  shows "\<exists>s'. destroyPointLight s e = Inr s'
      \<and> m_point_lights s' = butlast ((m_point_lights s)[nat i := last (m_point_lights s)])
      \<and> m_point_lights s' ! nat i = last (m_point_lights s)
      \<and> m_point_lights_map s' (m_entity (last (m_point_lights s))) = Some i
      \<and> m_point_lights_map s' e = None
      \<and> lights_consistent s'"
proof -
  define xs where "xs = m_point_lights s"
  define n where "n = length xs"
  from inv at have i0: "0 \<le> i" and iN: "i < int n" and ei: "m_entity (xs ! nat i) = e"
    unfolding lights_consistent_def xs_def n_def by blast+
  from iN notlast i0 have i1: "nat i < n - 1" unfolding n_def xs_def by linarith
  hence npos: "0 < n" by simp
  hence xs_ne: "xs \<noteq> []" unfolding n_def by simp
  have last_eq: "last xs = xs ! (n - 1)" using xs_ne by (simp add: last_conv_nth n_def)
  define el where "el = m_entity (last xs)"
  have fwd: "\<And>e' j. m_point_lights_map s e' = Some j \<Longrightarrow> 0 \<le> j \<and> nat j < n \<and> m_entity (xs ! nat j) = e'"
    using inv unfolding lights_consistent_def xs_def[symmetric] n_def[symmetric] by auto
  have bwd: "\<And>k. k < n \<Longrightarrow> m_point_lights_map s (m_entity (xs ! k)) = Some (int k)"
    using inv unfolding lights_consistent_def xs_def[symmetric] n_def[symmetric] by auto
  have map_last: "m_point_lights_map s el = Some (int (n - 1))"
    using bwd[of "n - 1"] npos unfolding el_def last_eq by simp
  have el_ne: "el \<noteq> e" using map_last at i1 by auto
  define ys where "ys = butlast (xs[nat i := last xs])"
  have ef: "eraseFast xs i = ys"
    using i0 iN i1 unfolding eraseFast_def ys_def n_def by auto
  have len_ys: "length ys = n - 1" unfolding ys_def n_def by simp
  have nth_ys: "\<And>j. j < n - 1 \<Longrightarrow> ys ! j = (if j = nat i then last xs else xs ! j)"
    unfolding ys_def using i1 by (simp add: nth_butlast n_def)
  define s' where "s' = onComponentDestroyed
        (s\<lparr>m_point_lights := ys,
            m_point_lights_map := ((m_point_lights_map s)(e := None))(el \<mapsto> i)\<rparr>)
        e POINT_LIGHT_TYPE"
  have run: "destroyPointLight s e = Inr s'"
    using at ef i0 i1 len_ys nth_ys[of "nat i"] map_last el_ne
    unfolding destroyPointLight_def s'_def xs_def[symmetric] el_def
    by (simp add: Let_def)
  have map': "\<And>e'. m_point_lights_map s' e' =
      (if e' = el then Some i else if e' = e then None else m_point_lights_map s e')"
    unfolding s'_def onComponentDestroyed_def by simp
  have cons: "lights_consistent s'"
    unfolding lights_consistent_def
  proof (intro allI iffI)
    fix e' j
    assume a: "m_point_lights_map s' e' = Some j"
    show "0 \<le> j \<and> j < int (length (m_point_lights s')) \<and> m_entity (m_point_lights s' ! nat j) = e'"
    proof (cases "e' = el")
      case True
      with a have "j = i" by (simp add: map')
      thus ?thesis using True i0 i1 len_ys nth_ys[of "nat i"] unfolding s'_def onComponentDestroyed_def el_def by simp
    next
      case False
      with a have ne: "e' \<noteq> e" and old: "m_point_lights_map s e' = Some j"
        by (auto simp: map' split: if_splits)
      from fwd[OF old] have j0: "0 \<le> j" and jn: "nat j < n" and je: "m_entity (xs ! nat j) = e'"
        by simp_all
      have "nat j \<noteq> n - 1" using je False unfolding el_def last_eq by auto
      moreover have "nat j \<noteq> nat i" using je ei ne by auto
      ultimately show ?thesis using j0 jn je len_ys nth_ys[of "nat j"] unfolding s'_def onComponentDestroyed_def by simp
    qed
  next
    fix e' j
    assume b: "0 \<le> j \<and> j < int (length (m_point_lights s')) \<and> m_entity (m_point_lights s' ! nat j) = e'"
    hence j0: "0 \<le> j" and jn: "nat j < n - 1" and je: "m_entity (ys ! nat j) = e'"
      using len_ys unfolding s'_def onComponentDestroyed_def by (simp_all add: nat_less_iff)
    show "m_point_lights_map s' e' = Some j"
    proof (cases "nat j = nat i")
      case True
      hence "j = i" using j0 i0 by simp
      moreover have "e' = el" using je True nth_ys[of "nat i"] i1 unfolding el_def by simp
      ultimately show ?thesis by (simp add: map')
    next
      case False
      hence e'x: "e' = m_entity (xs ! nat j)" using je nth_ys[of "nat j"] jn by simp
      have old: "m_point_lights_map s e' = Some j"
        using bwd[of "nat j"] jn j0 unfolding e'x by simp
      have "e' \<noteq> e" using old at False by auto
      moreover have "e' \<noteq> el" using old map_last jn by auto
      ultimately show ?thesis using old by (simp add: map')
    qed
  qed
  have r1: "m_point_lights s' = butlast ((m_point_lights s)[nat i := last (m_point_lights s)])"
    by (simp add: s'_def onComponentDestroyed_def ys_def xs_def)
  have r2: "m_point_lights s' ! nat i = last (m_point_lights s)"
    using nth_ys[of "nat i"] i1 by (simp add: s'_def onComponentDestroyed_def xs_def)
  have r3: "m_point_lights_map s' (m_entity (last (m_point_lights s))) = Some i"
    using map'[of el] by (simp add: el_def xs_def)
  have r4: "m_point_lights_map s' e = None"
    using map'[of e] el_ne by simp
  show ?thesis using run r1 r2 r3 r4 cons by blast
qed

theorem destroyPointLight_swaps_last_witness:
  "lights_consistent three_lights \<and> m_point_lights_map three_lights 4 = Some 0
   \<and> nat 0 \<noteq> length (m_point_lights three_lights) - 1
   \<and> (\<exists>s'. destroyPointLight three_lights 4 = Inr s'
        \<and> map m_entity (m_point_lights s') = [2, 9]
        \<and> m_point_lights_map s' 2 = Some 0
        \<and> m_point_lights_map s' 9 = Some 1
        \<and> m_point_lights_map s' 4 = None
        \<and> lights_consistent s')"
proof -
  have h1: "m_point_lights_map three_lights 4 = Some 0"
    by (simp add: three_lights_def createPointLight_def onComponentCreated_def RenderSceneImpl_def)
  have h2: "nat 0 \<noteq> length (m_point_lights three_lights) - 1"
    by (simp add: three_lights_def createPointLight_def onComponentCreated_def RenderSceneImpl_def)
  from destroyPointLight_swaps_last [OF three_lights_consistent h1 h2]
  obtain s' where run: "destroyPointLight three_lights 4 = Inr s'"
    and arr: "m_point_lights s' =
      butlast ((m_point_lights three_lights)[nat 0 := last (m_point_lights three_lights)])"
    and moved: "m_point_lights_map s' (m_entity (last (m_point_lights three_lights))) = Some 0"
    and gone: "m_point_lights_map s' 4 = None"
    and cons: "lights_consistent s'"
    by blast
  have ents: "map m_entity (m_point_lights s') = [2, 9]"
    unfolding arr by (simp add: three_lights_def createPointLight_def onComponentCreated_def RenderSceneImpl_def)
  have two: "m_point_lights_map s' 2 = Some 0"
    using moved by (simp add: three_lights_def createPointLight_def onComponentCreated_def RenderSceneImpl_def)
  have "m_entity (m_point_lights s' ! nat 1) = 9"
    unfolding arr by (simp add: three_lights_def createPointLight_def onComponentCreated_def RenderSceneImpl_def)
  moreover have "(1::int) < int (length (m_point_lights s'))"
    unfolding arr by (simp add: three_lights_def createPointLight_def onComponentCreated_def RenderSceneImpl_def)
  ultimately have nine: "m_point_lights_map s' 9 = Some 1"
    using cons unfolding lights_consistent_def by simp
  show ?thesis
    by (intro conjI exI[of _ s'] three_lights_consistent h1 h2 run ents two nine gone cons)
qed

section \<open>Cameras and the level-of-detail multiplier\<close>


text \<open>
  \<open>createCamera\<close>: the default camera, inserted under its entity; it becomes the active
  camera when there is none. Where a new key appears in the iteration order of a
  \<open>HashMap\<close> or an \<open>AssociativeArray\<close> is not fixed by the sources; the model puts it last.
\<close>

definition createCamera :: "scene \<Rightarrow> entity \<Rightarrow> scene" where
  "createCamera s entity =
     (let camera = \<lparr>cam_entity = entity, cam_fov = degreesToRadians 60,
                     cam_aspect = 800 / 600, cam_near = 0.1, cam_far = 10000,
                     cam_ortho_size = 10, cam_screen_width = 800, cam_screen_height = 600,
                     cam_is_ortho = False\<rparr>;
          s1 = onComponentCreated (s\<lparr>m_cameras := m_cameras s @ [(entity, camera)]\<rparr>)
                 entity CAMERA_TYPE
      in if \<not> isValid (m_active_camera s1) then s1\<lparr>m_active_camera := entity\<rparr> else s1)"





section \<open>Bone attachments\<close>

text \<open>
  The operations of external collaborators that the scene calls and whose code is not
  among the sources, taken as parameters: the product of a \<open>Transform\<close> with a
  \<open>LocalRigidTransform\<close> and with a \<open>Transform\<close>, \<open>Transform::inverted\<close>, \<open>DVec3::toFloat\<close>,
  \<open>Mesh::set\<close>, and the mesh that the constructor \<open>Mesh(nullptr, decl, "", nullptr,
  allocator)\<close> builds.
\<close>

record External =
  ext_mul_rigid :: "Transform \<Rightarrow> LocalRigidTransform \<Rightarrow> Transform"
  ext_mul :: "Transform \<Rightarrow> Transform \<Rightarrow> Transform"
  ext_inverted :: "Transform \<Rightarrow> Transform"
  ext_toFloat :: "DVec3 \<Rightarrow> Vec3"
  ext_mesh_set :: "Mesh \<Rightarrow> Mesh \<Rightarrow> Mesh"
  ext_new_mesh :: Mesh

text \<open>
  The universe's accessors. \<open>Universe::setTransform\<close> stores the transform; the
  entity-moved notification that the universe may raise afterwards is a call of its own
  and is not part of these operations.
\<close>

definition getTransform :: "scene \<Rightarrow> entity \<Rightarrow> Transform" where
  "getTransform s e = u_transforms (m_universe s) e"

definition getScale :: "scene \<Rightarrow> entity \<Rightarrow> real" where
  "getScale s e = tr_scale (getTransform s e)"

definition getPosition :: "scene \<Rightarrow> entity \<Rightarrow> DVec3" where
  "getPosition s e = tr_pos (getTransform s e)"

definition setTransform :: "scene \<Rightarrow> entity \<Rightarrow> Transform \<Rightarrow> scene" where
  "setTransform s e t =
     s\<lparr>m_universe := (m_universe s)\<lparr>u_transforms := (u_transforms (m_universe s))(e := t)\<rparr>\<rparr>"

text \<open>Writing through a reference into an associative array; erasing a key.\<close>

definition assoc_put :: "'k \<Rightarrow> 'v \<Rightarrow> ('k \<times> 'v) list \<Rightarrow> ('k \<times> 'v) list" where
  "assoc_put k v xs = map (\<lambda>p. if fst p = k then (k, v) else p) xs"

definition assoc_erase :: "'k \<Rightarrow> ('k \<times> 'v) list \<Rightarrow> ('k \<times> 'v) list" where
  "assoc_erase k xs = filter (\<lambda>p. fst p \<noteq> k) xs"

text \<open>\<open>lockPose\<close>: the pose pointer of the model instance at the entity's index.\<close>

definition lockPose :: "scene \<Rightarrow> entity \<Rightarrow> error + Pose option" where
  "lockPose s entity =
     (if 0 \<le> entity \<and> entity < int (length (m_model_instances s))
      then Inr (mi_pose (m_model_instances s ! nat entity))
      else Inl OutOfBounds)"

text \<open>
  \<open>updateBoneAttachment\<close>, the forward update. Its two calls \<open>unlockPose(model_instance,
  false)\<close> return at the first statement of \<open>unlockPose\<close> and are left out. The bone index
  is refused when it is negative or greater than the bone count; the positions and
  rotations of the pose are arrays, read at the index.
\<close>

definition updateBoneAttachment :: "External \<Rightarrow> scene \<Rightarrow> BoneAttachment \<Rightarrow> error + scene" where
  "updateBoneAttachment X s bone_attachment =
     (if \<not> isValid (ba_parent_entity bone_attachment) then Inr s
      else let model_instance = ba_parent_entity bone_attachment
      in if \<not> hasComponent s model_instance MODEL_INSTANCE_TYPE then Inr s
         else case lockPose s model_instance of
           Inl err \<Rightarrow> Inl err
         | Inr None \<Rightarrow> Inr s
         | Inr (Some parent_pose) \<Rightarrow>
             let parent_entity_transform = getTransform s (ba_parent_entity bone_attachment);
                 idx = ba_bone_index bone_attachment
             in if idx < 0 \<or> idx > pose_count parent_pose then Inr s
                else if length (pose_positions parent_pose) \<le> nat idx
                        \<or> length (pose_rotations parent_pose) \<le> nat idx
                then Inl OutOfBounds
                else
                  let original_scale = getScale s (ba_entity bone_attachment);
                      bone_transform = \<lparr>lrt_pos = pose_positions parent_pose ! nat idx,
                                        lrt_rot = pose_rotations parent_pose ! nat idx\<rparr>;
                      relative_transform =
                        \<lparr>lrt_pos = lrt_pos (ba_relative_transform bone_attachment),
                         lrt_rot = lrt_rot (ba_relative_transform bone_attachment)\<rparr>;
                      result = ext_mul_rigid X
                                 (ext_mul_rigid X parent_entity_transform bone_transform)
                                 relative_transform
                  in Inr (setTransform s (ba_entity bone_attachment)
                            (result\<lparr>tr_scale := original_scale\<rparr>)))"

text \<open>
  \<open>updateRelativeMatrix\<close>, the backward update. It changes nothing but the attachment it
  is given by reference, which it returns.
\<close>

definition updateRelativeMatrix ::
  "External \<Rightarrow> scene \<Rightarrow> BoneAttachment \<Rightarrow> error + BoneAttachment" where
  "updateRelativeMatrix X s attachment =
     (if \<not> isValid (ba_parent_entity attachment) then Inr attachment
      else if ba_bone_index attachment < 0 then Inr attachment
      else let model_instance = ba_parent_entity attachment
      in if \<not> hasComponent s model_instance MODEL_INSTANCE_TYPE then Inr attachment
         else case lockPose s model_instance of
           Inl err \<Rightarrow> Inl err
         | Inr None \<Rightarrow> Inr attachment
         | Inr (Some pose) \<Rightarrow>
             if \<not> pose_is_absolute pose then Inl AssertFailed
             else if ba_bone_index attachment \<ge> pose_count pose then Inr attachment
             else if length (pose_positions pose) \<le> nat (ba_bone_index attachment)
                     \<or> length (pose_rotations pose) \<le> nat (ba_bone_index attachment)
             then Inl OutOfBounds
             else
               let bone_transform =
                     \<lparr>lrt_pos = pose_positions pose ! nat (ba_bone_index attachment),
                      lrt_rot = pose_rotations pose ! nat (ba_bone_index attachment)\<rparr>;
                   parent = ba_parent_entity attachment;
                   inv_parent_transform =
                     ext_inverted X (ext_mul_rigid X (getTransform s parent) bone_transform);
                   child_transform = getTransform s (ba_entity attachment);
                   res = ext_mul X inv_parent_transform child_transform
               in Inr (attachment\<lparr>ba_relative_transform :=
                         \<lparr>lrt_pos = ext_toFloat X (tr_pos res), lrt_rot = tr_rot res\<rparr>\<rparr>))"

text \<open>
  \<open>unlockPose\<close>: when the pose changed and the instance is flagged as the parent of a bone
  attachment (or lies beyond the table), every attachment of that parent is updated
  forward, in the order of the table.
\<close>

fun unlockPose_loop :: "External \<Rightarrow> entity \<Rightarrow> BoneAttachment list \<Rightarrow> scene \<Rightarrow> error + scene" where
  "unlockPose_loop X parent [] s = Inr s"
| "unlockPose_loop X parent (ba # bas) s =
     (if ba_parent_entity ba \<noteq> parent then unlockPose_loop X parent bas s
      else case updateBoneAttachment X (s\<lparr>m_is_updating_attachments := True\<rparr>) ba of
             Inl err \<Rightarrow> Inl err
           | Inr s1 \<Rightarrow> unlockPose_loop X parent bas (s1\<lparr>m_is_updating_attachments := False\<rparr>))"

definition unlockPose :: "External \<Rightarrow> scene \<Rightarrow> entity \<Rightarrow> bool \<Rightarrow> error + scene" where
  "unlockPose X s entity changed =
     (if \<not> changed then Inr s
      else if entity < 0 then Inl OutOfBounds
      else if entity < int (length (m_model_instances s))
              \<and> IS_BONE_ATTACHMENT_PARENT \<notin> mi_flags (m_model_instances s ! nat entity)
      then Inr s
      else unlockPose_loop X entity (map snd (m_bone_attachments s)) s)"

text \<open>
  \<open>createBoneAttachment\<close>: no parent, bone index -1. The relative transform is not set by
  the code; the model starts it at zero.
\<close>

definition createBoneAttachment :: "scene \<Rightarrow> entity \<Rightarrow> scene" where
  "createBoneAttachment s entity =
     (let attachment = \<lparr>ba_entity = entity, ba_parent_entity = INVALID_ENTITY,
                         ba_bone_index = -1,
                         ba_relative_transform = \<lparr>lrt_pos = (0, 0, 0), lrt_rot = (0, 0, 0, 0)\<rparr>\<rparr>
      in onComponentCreated
           (s\<lparr>m_bone_attachments := m_bone_attachments s @ [(entity, attachment)]\<rparr>)
           entity BONE_ATTACHMENT_TYPE)"

text \<open>Setting a flag of the model instance at an index that the caller has checked.\<close>

definition set_instance_flags ::
  "scene \<Rightarrow> entity \<Rightarrow> (ModelInstanceFlag set \<Rightarrow> ModelInstanceFlag set) \<Rightarrow> scene" where
  "set_instance_flags s e f =
     s\<lparr>m_model_instances :=
         (m_model_instances s)[nat e :=
           (m_model_instances s ! nat e)\<lparr>mi_flags := f (mi_flags (m_model_instances s ! nat e))\<rparr>]\<rparr>"

definition setBoneAttachmentBone :: "External \<Rightarrow> scene \<Rightarrow> entity \<Rightarrow> int \<Rightarrow> error + scene" where
  "setBoneAttachmentBone X s entity v =
     (case map_of (m_bone_attachments s) entity of
        None \<Rightarrow> Inl KeyNotFound
      | Some ba \<Rightarrow>
          (case updateRelativeMatrix X s (ba\<lparr>ba_bone_index := v\<rparr>) of
             Inl err \<Rightarrow> Inl err
           | Inr ba' \<Rightarrow>
               Inr (s\<lparr>m_bone_attachments := assoc_put entity ba' (m_bone_attachments s)\<rparr>)))"

definition setBoneAttachmentParent :: "External \<Rightarrow> scene \<Rightarrow> entity \<Rightarrow> entity \<Rightarrow> error + scene" where
  "setBoneAttachmentParent X s entity parent =
     (case map_of (m_bone_attachments s) entity of
        None \<Rightarrow> Inl KeyNotFound
      | Some ba \<Rightarrow>
          let s1 = (if isValid parent \<and> parent < int (length (m_model_instances s))
                    then set_instance_flags s parent (insert IS_BONE_ATTACHMENT_PARENT)
                    else s)
          in (case updateRelativeMatrix X s1 (ba\<lparr>ba_parent_entity := parent\<rparr>) of
                Inl err \<Rightarrow> Inl err
              | Inr ba' \<Rightarrow>
                  Inr (s1\<lparr>m_bone_attachments := assoc_put entity ba' (m_bone_attachments s1)\<rparr>)))"

definition setBoneAttachmentPosition :: "External \<Rightarrow> scene \<Rightarrow> entity \<Rightarrow> Vec3 \<Rightarrow> error + scene" where
  "setBoneAttachmentPosition X s entity pos =
     (case map_of (m_bone_attachments s) entity of
        None \<Rightarrow> Inl KeyNotFound
      | Some ba \<Rightarrow>
          let attachment = ba\<lparr>ba_relative_transform := (ba_relative_transform ba)\<lparr>lrt_pos := pos\<rparr>\<rparr>;
              s1 = s\<lparr>m_bone_attachments := assoc_put entity attachment (m_bone_attachments s),
                     m_is_updating_attachments := True\<rparr>
          in (case updateBoneAttachment X s1 attachment of
                Inl err \<Rightarrow> Inl err
              | Inr s2 \<Rightarrow> Inr (s2\<lparr>m_is_updating_attachments := False\<rparr>)))"

text \<open>
  \<open>destroyBoneAttachment\<close>: the flag of the parent's model instance is cleared, the
  attachment erased, the universe told.
\<close>

definition destroyBoneAttachment :: "scene \<Rightarrow> entity \<Rightarrow> error + scene" where
  "destroyBoneAttachment s entity =
     (case map_of (m_bone_attachments s) entity of
        None \<Rightarrow> Inl KeyNotFound
      | Some bone_attachment \<Rightarrow>
          let parent_entity = ba_parent_entity bone_attachment;
              s1 = (if isValid parent_entity \<and> parent_entity < int (length (m_model_instances s))
                    then set_instance_flags s parent_entity (\<lambda>f. f - {IS_BONE_ATTACHMENT_PARENT})
                    else s)
          in Inr (onComponentDestroyed
                    (s1\<lparr>m_bone_attachments := assoc_erase entity (m_bone_attachments s1)\<rparr>)
                    entity BONE_ATTACHMENT_TYPE))"

section \<open>Model instances, the culling system and the model dependency lists\<close>

text \<open>
  What \<open>Array::emplace()\<close> yields before the code assigns members: the model starts every
  member at null, empty or invalid. No operation below reads a member of a slot before
  writing it.
\<close>

definition emplaced_instance :: ModelInstance where
  "emplaced_instance =
     \<lparr>mi_model = None, mi_pose = None, mi_entity = INVALID_ENTITY, mi_meshes = NoMeshes,
      mi_flags = {}, mi_mesh_count = 0, mi_next_model = INVALID_ENTITY,
      mi_prev_model = INVALID_ENTITY\<rparr>"

text \<open>
  \<open>createModelInstance\<close>: the table is extended with holes up to the entity's index, then
  the slot at that index is initialised.
\<close>

definition createModelInstance :: "scene \<Rightarrow> entity \<Rightarrow> error + scene" where
  "createModelInstance s entity =
     (if entity < 0 then Inl OutOfBounds
      else
        let hole = emplaced_instance\<lparr>mi_entity := INVALID_ENTITY, mi_model := None, mi_pose := None\<rparr>;
            padded = m_model_instances s
                       @ replicate (nat entity + 1 - length (m_model_instances s)) hole;
            r = (padded ! nat entity)
                  \<lparr>mi_entity := entity, mi_model := None, mi_meshes := NoMeshes,
                   mi_pose := None, mi_flags := {ENABLED}, mi_mesh_count := 0\<rparr>
        in Inr (onComponentCreated (s\<lparr>m_model_instances := padded[nat entity := r]\<rparr>)
                  entity MODEL_INSTANCE_TYPE))"

definition hasCustomMeshes :: "ModelInstance \<Rightarrow> bool" where
  "hasCustomMeshes r = (CUSTOM_MESHES \<in> mi_flags r)"

text \<open>The array behind the \<open>meshes\<close> pointer of an instance, \<open>None\<close> for the null pointer.\<close>

definition meshes_view :: "Engine \<Rightarrow> MeshesPtr \<Rightarrow> Mesh list option" where
  "meshes_view eng p =
     (case p of
        NoMeshes \<Rightarrow> None
      | ModelMeshes m \<Rightarrow> Some (model_meshes (eng_models eng m))
      | OwnMeshes ms \<Rightarrow> Some ms)"

text \<open>\<open>getLayerMask\<close>: 1 for a model that is not ready, else the union of the masks of the
  materials of the model's meshes.\<close>

fun layer_mask_loop :: "Engine \<Rightarrow> Mesh list \<Rightarrow> 64 word \<Rightarrow> error + 64 word" where
  "layer_mask_loop eng [] layer_mask = Inr layer_mask"
| "layer_mask_loop eng (mesh # meshes) layer_mask =
     (case mesh_material mesh of
        None \<Rightarrow> Inl NullDeref
      | Some mat \<Rightarrow>
          layer_mask_loop eng meshes
            (layer_mask OR material_RenderLayerMask (eng_materials eng mat)))"

definition getLayerMask :: "Engine \<Rightarrow> ModelInstance \<Rightarrow> error + 64 word" where
  "getLayerMask eng model_instance =
     (case mi_model model_instance of
        None \<Rightarrow> Inl NullDeref
      | Some m \<Rightarrow>
          if \<not> model_isReady (eng_models eng m) then Inr 1
          else layer_mask_loop eng (model_meshes (eng_models eng m)) 0)"

text \<open>The culling system, as far as membership goes.\<close>

definition culling_add :: "scene \<Rightarrow> entity \<Rightarrow> scene" where
  "culling_add s e = s\<lparr>m_culling_system := insert e (m_culling_system s)\<rparr>"

definition culling_remove :: "scene \<Rightarrow> entity \<Rightarrow> scene" where
  "culling_remove s e = s\<lparr>m_culling_system := m_culling_system s - {e}\<rparr>"

definition isAdded :: "scene \<Rightarrow> entity \<Rightarrow> bool" where
  "isAdded s e = (e \<in> m_culling_system s)"

text \<open>Writing the model instance at an index that has been checked.\<close>

definition put_instance :: "scene \<Rightarrow> nat \<Rightarrow> ModelInstance \<Rightarrow> scene" where
  "put_instance s i r = s\<lparr>m_model_instances := (m_model_instances s)[i := r]\<rparr>"

text \<open>
  The material-to-entities index of the custom meshes. A null material has no entry;
  making an entry for it dereferences the null pointer, and removing from an entry that
  is absent fails the assertion.
\<close>

definition addToCustomMeshCallbacks :: "scene \<Rightarrow> nat option \<Rightarrow> entity \<Rightarrow> error + scene" where
  "addToCustomMeshCallbacks s material entity =
     (case material of
        None \<Rightarrow> Inl NullDeref
      | Some mat \<Rightarrow>
          (case m_custom_mesh_callbacks s mat of
             None \<Rightarrow> Inr (s\<lparr>m_custom_mesh_callbacks := (m_custom_mesh_callbacks s)(mat \<mapsto> [entity])\<rparr>)
           | Some entities \<Rightarrow>
               Inr (s\<lparr>m_custom_mesh_callbacks :=
                        (m_custom_mesh_callbacks s)(mat \<mapsto> entities @ [entity])\<rparr>)))"

fun index_of :: "'a \<Rightarrow> 'a list \<Rightarrow> nat \<Rightarrow> nat option" where
  "index_of x [] i = None"
| "index_of x (y # ys) i = (if y = x then Some i else index_of x ys (Suc i))"

definition removeFromCustomMeshCallbacks :: "scene \<Rightarrow> nat option \<Rightarrow> entity \<Rightarrow> error + scene" where
  "removeFromCustomMeshCallbacks s material entity =
     (case material of
        None \<Rightarrow> Inl AssertFailed
      | Some mat \<Rightarrow>
          (case m_custom_mesh_callbacks s mat of
             None \<Rightarrow> Inl AssertFailed
           | Some entities \<Rightarrow>
               let entities' = (case index_of entity entities 0 of
                                  None \<Rightarrow> entities
                                | Some i \<Rightarrow> eraseFast entities (int i))
               in if entities' = []
                  then Inr (s\<lparr>m_custom_mesh_callbacks := (m_custom_mesh_callbacks s)(mat := None)\<rparr>)
                  else Inr (s\<lparr>m_custom_mesh_callbacks :=
                             (m_custom_mesh_callbacks s)(mat \<mapsto> entities')\<rparr>)))"

fun add_callbacks_loop :: "scene \<Rightarrow> Mesh list \<Rightarrow> entity \<Rightarrow> error + scene" where
  "add_callbacks_loop s [] entity = Inr s"
| "add_callbacks_loop s (mesh # meshes) entity =
     (case addToCustomMeshCallbacks s (mesh_material mesh) entity of
        Inl err \<Rightarrow> Inl err
      | Inr s1 \<Rightarrow> add_callbacks_loop s1 meshes entity)"

fun remove_callbacks_loop :: "scene \<Rightarrow> Mesh list \<Rightarrow> entity \<Rightarrow> error + scene" where
  "remove_callbacks_loop s [] entity = Inr s"
| "remove_callbacks_loop s (mesh # meshes) entity =
     (case removeFromCustomMeshCallbacks s (mesh_material mesh) entity of
        Inl err \<Rightarrow> Inl err
      | Inr s1 \<Rightarrow> remove_callbacks_loop s1 meshes entity)"

text \<open>
  \<open>allocateCustomMeshes(r, count)\<close> for the instance at index \<open>i\<close>: a new array of \<open>count\<close>
  meshes receives copies of the \<open>mesh_count\<close> meshes the instance has; when these were the
  model's, each material is loaded and indexed; the rest of the new array is filled with
  new meshes. Copying more meshes than the new array holds, or reading more than the old
  array holds, is out of bounds; so is a null \<open>meshes\<close> pointer with a mesh count other
  than zero, which would leave meshes of the new array unconstructed.
\<close>

definition allocateCustomMeshes :: "External \<Rightarrow> scene \<Rightarrow> nat \<Rightarrow> int \<Rightarrow> error + scene" where
  "allocateCustomMeshes X s i count =
     (let r = m_model_instances s ! i
      in if hasCustomMeshes r \<and> mi_mesh_count r = count then Inr s
         else if mi_model r = None then Inl AssertFailed
         else
           (case meshes_view (m_engine s) (mi_meshes r) of
              None \<Rightarrow>
                if mi_mesh_count r \<noteq> 0 then Inl OutOfBounds
                else
                Inr (put_instance s i
                       (r\<lparr>mi_meshes := OwnMeshes (replicate (nat (count - mi_mesh_count r))
                                                    (ext_new_mesh X)),
                          mi_mesh_count := count,
                          mi_flags := insert CUSTOM_MESHES (mi_flags r)\<rparr>))
            | Some old \<Rightarrow>
                if mi_mesh_count r < 0 \<or> int (length old) < mi_mesh_count r
                   \<or> count < mi_mesh_count r
                then Inl OutOfBounds
                else
                  let copied = take (nat (mi_mesh_count r)) old;
                      new_meshes = copied @ replicate (nat (count - mi_mesh_count r)) (ext_new_mesh X);
                      r' = r\<lparr>mi_meshes := OwnMeshes new_meshes, mi_mesh_count := count,
                             mi_flags := insert CUSTOM_MESHES (mi_flags r)\<rparr>
                  in if hasCustomMeshes r then Inr (put_instance s i r')
                     else (case add_callbacks_loop s copied (mi_entity r) of
                             Inl err \<Rightarrow> Inl err
                           | Inr s1 \<Rightarrow> Inr (put_instance s1 i r'))))"

text \<open>\<open>freeCustomMeshes\<close> for the instance at index \<open>i\<close>.\<close>

definition freeCustomMeshes :: "scene \<Rightarrow> nat \<Rightarrow> error + scene" where
  "freeCustomMeshes s i =
     (let r = m_model_instances s ! i
      in if \<not> hasCustomMeshes r then Inr s
         else
           (case meshes_view (m_engine s) (mi_meshes r) of
              None \<Rightarrow> if mi_mesh_count r > 0 then Inl NullDeref
                       else Inr (put_instance s i
                                   (r\<lparr>mi_meshes := NoMeshes,
                                      mi_flags := mi_flags r - {CUSTOM_MESHES},
                                      mi_mesh_count := 0\<rparr>))
            | Some old \<Rightarrow>
                if int (length old) < mi_mesh_count r then Inl OutOfBounds
                else (case remove_callbacks_loop s (take (nat (mi_mesh_count r)) old) (mi_entity r) of
                        Inl err \<Rightarrow> Inl err
                      | Inr s1 \<Rightarrow>
                          Inr (put_instance s1 i
                                 (r\<lparr>mi_meshes := NoMeshes,
                                    mi_flags := mi_flags r - {CUSTOM_MESHES},
                                    mi_mesh_count := 0\<rparr>)))))"

text \<open>\<open>modelUnloaded(Model*, EntityRef)\<close> for the instance at index \<open>i\<close>.\<close>

definition modelUnloaded_entity :: "scene \<Rightarrow> nat \<Rightarrow> scene" where
  "modelUnloaded_entity s i =
     (let r = m_model_instances s ! i;
          r1 = (if \<not> hasCustomMeshes r then r\<lparr>mi_meshes := NoMeshes, mi_mesh_count := 0\<rparr> else r);
          r2 = r1\<lparr>mi_pose := None\<rparr>
      in culling_remove (put_instance s i r2) (int i))"

text \<open>
  The loop of \<open>modelLoaded(Model*, EntityRef)\<close> over the custom meshes: a mesh without a
  material takes the material of the model's mesh; every mesh is then set from the
  model's mesh.
\<close>

fun relink_custom_meshes :: "External \<Rightarrow> Mesh list \<Rightarrow> Mesh list \<Rightarrow> (error + Mesh list)" where
  "relink_custom_meshes X [] srcs = Inr []"
| "relink_custom_meshes X (m # ms) [] = Inl OutOfBounds"
| "relink_custom_meshes X (m # ms) (src # srcs) =
     (if mesh_material m = None \<and> mesh_material src = None then Inl NullDeref
      else
        let m1 = (if mesh_material m = None then m\<lparr>mesh_material := mesh_material src\<rparr> else m)
        in (case relink_custom_meshes X ms srcs of
              Inl err \<Rightarrow> Inl err
            | Inr rest \<Rightarrow> Inr (ext_mesh_set X m1 src # rest)))"

text \<open>
  The meshes of an instance whose model has become ready: an instance that has meshes
  already gets its custom meshes reallocated to the model's mesh count, filled in from
  the model's meshes; an instance without meshes views the mesh array of \<open>r.model\<close>.
\<close>

definition bind_meshes ::
  "External \<Rightarrow> scene \<Rightarrow> nat \<Rightarrow> ModelInstance \<Rightarrow> Model \<Rightarrow> nat \<Rightarrow> error + scene" where
  "bind_meshes X s i r m rm =
     (if mi_meshes r \<noteq> NoMeshes
      then bindE (allocateCustomMeshes X (put_instance s i r) i (int (length (model_meshes m))))
             (\<lambda>s2. let r2 = m_model_instances s2 ! i
                    in (case meshes_view (m_engine s2) (mi_meshes r2) of
                          None \<Rightarrow> Inl NullDeref
                        | Some own \<Rightarrow>
                            bindE (relink_custom_meshes X (take (nat (mi_mesh_count r2)) own)
                                     (model_meshes m))
                              (\<lambda>relinked.
                                 Inr (put_instance s2 i
                                        (r2\<lparr>mi_meshes := OwnMeshes
                                           (relinked @ drop (nat (mi_mesh_count r2)) own)\<rparr>)))))
      else Inr (put_instance s i
                  (r\<lparr>mi_meshes := ModelMeshes rm,
                     mi_mesh_count := int (length (model_meshes (eng_models (m_engine s) rm)))\<rparr>)))"

text \<open>
  \<open>modelLoaded(Model* model, EntityRef entity)\<close>. The bounding radius, the layer mask and
  the shared mesh view are read through \<open>r.model\<close>; the bone count, the rest pose and the
  mesh count through the argument \<open>model\<close>. For a model with bones, a shader define is
  set on the material of every mesh of the model, which dereferences the material. An
  instance flagged as the parent of a bone attachment looks up
  \<open>m_bone_attachments[entity]\<close> and updates it forward.
\<close>

definition modelLoaded_entity :: "External \<Rightarrow> scene \<Rightarrow> nat \<Rightarrow> entity \<Rightarrow> error + scene" where
  "modelLoaded_entity X s model entity =
     (if entity < 0 \<or> int (length (m_model_instances s)) \<le> entity then Inl OutOfBounds
      else
        let i = nat entity; r = m_model_instances s ! i
        in (case mi_model r of
              None \<Rightarrow> Inl NullDeref
            | Some rm \<Rightarrow>
                bindE (if ENABLED \<in> mi_flags r
                       then bindE (getLayerMask (m_engine s) r)
                              (\<lambda>layer_mask. Inr (culling_add s entity))
                       else Inr s)
                  (\<lambda>s1.
                     if mi_pose r \<noteq> None then Inl AssertFailed
                     else
                       let m = eng_models (m_engine s) model;
                           r1 = (if model_BoneCount m > 0 then r\<lparr>mi_pose := Some (model_pose m)\<rparr>
                                 else r)
                       in if model_BoneCount m > 0
                             \<and> list_ex (\<lambda>mesh. mesh_material mesh = None) (model_meshes m)
                          then Inl NullDeref
                          else if mi_meshes r1 \<noteq> NoMeshes \<and> \<not> hasCustomMeshes r1
                          then Inl AssertFailed
                          else
                            bindE (bind_meshes X s1 i r1 m rm)
                              (\<lambda>s3. if IS_BONE_ATTACHMENT_PARENT \<in> mi_flags r
                                     then (case map_of (m_bone_attachments s3) entity of
                                             None \<Rightarrow> Inl KeyNotFound
                                           | Some ba \<Rightarrow> updateBoneAttachment X s3 ba)
                                     else Inr s3))))"

text \<open>
  \<open>modelUnloaded(Model* model)\<close> scans the table and unloads every live instance of the
  model.
\<close>

fun modelUnloaded_loop :: "nat \<Rightarrow> nat list \<Rightarrow> scene \<Rightarrow> scene" where
  "modelUnloaded_loop model [] s = s"
| "modelUnloaded_loop model (i # is) s =
     (if mi_entity (m_model_instances s ! i) \<noteq> INVALID_ENTITY
         \<and> mi_model (m_model_instances s ! i) = Some model
      then modelUnloaded_loop model is (modelUnloaded_entity s i)
      else modelUnloaded_loop model is s)"

definition modelUnloaded :: "scene \<Rightarrow> nat \<Rightarrow> scene" where
  "modelUnloaded s model = modelUnloaded_loop model [0 ..< length (m_model_instances s)] s"

text \<open>
  \<open>modelLoaded(Model* model)\<close> walks the dependency list of the model: from the entity
  that \<open>m_model_entity_map\<close> holds, along \<open>next_model\<close>, until an invalid entity. The walk
  need not end; not returning is \<open>None\<close>.
\<close>

partial_function (option) modelLoaded_walk ::
  "External \<Rightarrow> nat \<Rightarrow> entity \<Rightarrow> scene \<Rightarrow> (error + scene) option" where
  "modelLoaded_walk X model e s =
     (if \<not> isValid e then Some (Inr s)
      else (case modelLoaded_entity X s model e of
              Inl err \<Rightarrow> Some (Inl err)
            | Inr s1 \<Rightarrow>
                modelLoaded_walk X model (mi_next_model (m_model_instances s1 ! nat e)) s1))"

definition modelLoaded :: "External \<Rightarrow> scene \<Rightarrow> nat \<Rightarrow> (error + scene) option" where
  "modelLoaded X s model =
     (case m_model_entity_map s model of
        None \<Rightarrow> Some (Inl KeyNotFound)
      | Some e \<Rightarrow> modelLoaded_walk X model e s)"

text \<open>
  Modelled from the spec: \<open>Resource::State\<close> is declared in \<open>engine/resource.h\<close>, which is
  not among the sources; the spec names the states "not-ready\<leftrightarrow>ready\<leftrightarrow>failed".
\<close>

datatype ResourceState = EMPTY | READY | FAILURE

definition modelStateChanged ::
  "External \<Rightarrow> scene \<Rightarrow> ResourceState \<Rightarrow> ResourceState \<Rightarrow> nat \<Rightarrow> (error + scene) option" where
  "modelStateChanged X s old_state new_state model =
     (if new_state = READY then modelLoaded X s model
      else if old_state = READY \<and> new_state \<noteq> READY then Some (Inr (modelUnloaded s model))
      else Some (Inr s))"

text \<open>
  The dependency lists. \<open>addToModelEntityMap\<close> makes the entity the head of the model's
  list; \<open>removeFromModelEntityMap\<close> links the neighbours of the entity to each other and
  moves the head when the entity is the head.
\<close>

definition addToModelEntityMap :: "scene \<Rightarrow> nat \<Rightarrow> entity \<Rightarrow> scene" where
  "addToModelEntityMap s model entity =
     (let i = nat entity;
          r = (m_model_instances s ! i)\<lparr>mi_prev_model := INVALID_ENTITY\<rparr>
      in (case m_model_entity_map s model of
            Some head \<Rightarrow>
              (put_instance s i (r\<lparr>mi_next_model := head\<rparr>))
                \<lparr>m_model_entity_map := (m_model_entity_map s)(model \<mapsto> entity)\<rparr>
          | None \<Rightarrow>
              (put_instance s i (r\<lparr>mi_next_model := INVALID_ENTITY\<rparr>))
                \<lparr>m_model_entity_map := (m_model_entity_map s)(model \<mapsto> entity)\<rparr>))"

definition removeFromModelEntityMap :: "scene \<Rightarrow> nat \<Rightarrow> entity \<Rightarrow> error + scene" where
  "removeFromModelEntityMap s model entity =
     (let r = m_model_instances s ! nat entity
      in if (isValid (mi_prev_model r) \<and> int (length (m_model_instances s)) \<le> mi_prev_model r)
            \<or> (isValid (mi_next_model r) \<and> int (length (m_model_instances s)) \<le> mi_next_model r)
         then Inl OutOfBounds
         else
           let s1 = (if isValid (mi_prev_model r)
                     then put_instance s (nat (mi_prev_model r))
                            ((m_model_instances s ! nat (mi_prev_model r))
                               \<lparr>mi_next_model := mi_next_model r\<rparr>)
                     else s);
               s2 = (if isValid (mi_next_model r)
                     then put_instance s1 (nat (mi_next_model r))
                            ((m_model_instances s1 ! nat (mi_next_model r))
                               \<lparr>mi_prev_model := mi_prev_model r\<rparr>)
                     else s1)
           in (case m_model_entity_map s2 model of
                 None \<Rightarrow> Inl KeyNotFound
               | Some head \<Rightarrow>
                   if head = entity
                   then (if isValid (mi_next_model r)
                         then Inr (s2\<lparr>m_model_entity_map :=
                                        (m_model_entity_map s2)(model \<mapsto> mi_next_model r)\<rparr>)
                         else Inr (s2\<lparr>m_model_entity_map := (m_model_entity_map s2)(model := None)\<rparr>))
                   else Inr s2))"

text \<open>
  \<open>setModel(EntityRef entity, Model* model)\<close>; \<open>None\<close> is the null model. The same model
  again changes nothing. Otherwise the old model, if any, is let go: the custom meshes are
  freed, the entity leaves the old model's list and, when the old model is ready, the
  culling system. Then the instance takes the new model: it joins the list of the model,
  and when the model is ready it is loaded at once.
\<close>

definition detach_model :: "scene \<Rightarrow> nat \<Rightarrow> entity \<Rightarrow> nat \<Rightarrow> error + scene" where
  "detach_model s i entity old_model =
     bindE (freeCustomMeshes s i)
       (\<lambda>s1. bindE (removeFromModelEntityMap s1 old_model entity)
                (\<lambda>s2. if model_isReady (eng_models (m_engine s2) old_model)
                       then Inr (culling_remove s2 entity)
                       else Inr s2))"

definition attach_model :: "External \<Rightarrow> scene \<Rightarrow> nat \<Rightarrow> entity \<Rightarrow> nat option \<Rightarrow> error + scene" where
  "attach_model X s i entity model =
     (let s1 = put_instance s i
                 ((m_model_instances s ! i)
                    \<lparr>mi_model := model, mi_meshes := NoMeshes,
                     mi_mesh_count := 0, mi_pose := None\<rparr>)
      in (case model of
            None \<Rightarrow> Inr s1
          | Some m \<Rightarrow>
              let s2 = addToModelEntityMap s1 m entity
              in if model_isReady (eng_models (m_engine s2) m)
                 then modelLoaded_entity X s2 m entity
                 else Inr s2))"

definition setModel :: "External \<Rightarrow> scene \<Rightarrow> entity \<Rightarrow> nat option \<Rightarrow> error + scene" where
  "setModel X s entity model =
     (if entity < 0 \<or> int (length (m_model_instances s)) \<le> entity then Inl OutOfBounds
      else
        let i = nat entity; model_instance = m_model_instances s ! i
        in if \<not> isValid (mi_entity model_instance) then Inl AssertFailed
           else
             let old_model = mi_model model_instance
             in if model = old_model \<and> old_model \<noteq> None then Inr s
                else bindE (case old_model of
                              None \<Rightarrow> Inr s
                            | Some om \<Rightarrow> detach_model s i entity om)
                       (\<lambda>s3. attach_model X s3 i entity model))"

definition destroyModelInstance :: "External \<Rightarrow> scene \<Rightarrow> entity \<Rightarrow> error + scene" where
  "destroyModelInstance X s entity =
     (case setModel X s entity None of
        Inl err \<Rightarrow> Inl err
      | Inr s1 \<Rightarrow>
          Inr (onComponentDestroyed
                 (put_instance s1 (nat entity)
                    ((m_model_instances s1 ! nat entity)
                       \<lparr>mi_pose := None, mi_entity := INVALID_ENTITY\<rparr>))
                 entity MODEL_INSTANCE_TYPE))"

definition enableModelInstance :: "scene \<Rightarrow> entity \<Rightarrow> bool \<Rightarrow> error + scene" where
  "enableModelInstance s entity enable =
     (if entity < 0 \<or> int (length (m_model_instances s)) \<le> entity then Inl OutOfBounds
      else
        let i = nat entity;
            r = m_model_instances s ! i;
            model_instance = r\<lparr>mi_flags := (if enable then insert ENABLED (mi_flags r)
                                             else mi_flags r - {ENABLED})\<rparr>;
            s1 = put_instance s i model_instance
        in if enable
           then (case mi_model model_instance of
                   None \<Rightarrow> Inr s1
                 | Some m \<Rightarrow>
                     if \<not> model_isReady (eng_models (m_engine s1) m) then Inr s1
                     else (case getLayerMask (m_engine s1) model_instance of
                             Inl err \<Rightarrow> Inl err
                           | Inr layer_mask \<Rightarrow>
                               if \<not> isAdded s1 entity then Inr (culling_add s1 entity)
                               else Inr s1))
           else Inr (culling_remove s1 entity))"

text \<open>
  The resource subsystem changes the ready state of a model; the scene then hears of it
  through \<open>modelStateChanged\<close>.
\<close>

definition set_model_ready :: "scene \<Rightarrow> nat \<Rightarrow> bool \<Rightarrow> scene" where
  "set_model_ready s model ready =
     s\<lparr>m_engine := (m_engine s)\<lparr>eng_models :=
         (eng_models (m_engine s))(model := (eng_models (m_engine s) model)\<lparr>model_isReady := ready\<rparr>)\<rparr>\<rparr>"

section \<open>The binary stream\<close>

text \<open>
  \<open>OutputBlob\<close> and \<open>InputBlob\<close> (\<open>engine/blob.h\<close>) are not among the sources. A blob is a
  list of bytes. \<open>write\<close> of an integer appends the bytes of its representation, the least
  significant first; \<open>read\<close> takes them back; a read past the end fails (the spec leaves a
  truncated stream undefined). What the sources do not fix is taken as a parameter: the
  bits of a float, the bytes of the structs written in one piece (\<open>PointLight\<close>,
  \<open>GlobalLight\<close>) and of the externally serialized terrains and emitters, the two string
  encodings (\<open>writeString\<close> of a C string, \<open>write\<close> of a \<open>string\<close>), the byte of the
  model-instance flags and their persistent subset, the name of the universe, the text
  of a guid, and the texture that the resource manager loads for a path.
\<close>

record Codec =
  float_bits :: "real \<Rightarrow> 32 word"
  enc_point_light :: "PointLight \<Rightarrow> byte list"
  enc_global_light :: "GlobalLight \<Rightarrow> byte list"
  enc_terrain :: "Terrain \<Rightarrow> byte list"
  enc_emitter :: "ParticleEmitter \<Rightarrow> byte list"
  enc_cstring :: "string \<Rightarrow> byte list"
  enc_string :: "string \<Rightarrow> byte list"
  enc_flags :: "ModelInstanceFlag set \<Rightarrow> 8 word"
  PERSISTENT_FLAGS :: "ModelInstanceFlag set"
  universe_name :: string
  guid_text :: "64 word \<Rightarrow> string"
  load_texture :: "string \<Rightarrow> nat"

definition write_u8 :: "8 word \<Rightarrow> byte list" where
  "write_u8 w = [w]"

definition write_u16 :: "16 word \<Rightarrow> byte list" where
  "write_u16 w = [ucast w, ucast (drop_bit 8 w)]"

definition write_u32 :: "32 word \<Rightarrow> byte list" where
  "write_u32 w = [ucast w, ucast (drop_bit 8 w), ucast (drop_bit 16 w), ucast (drop_bit 24 w)]"

definition write_u64 :: "64 word \<Rightarrow> byte list" where
  "write_u64 w =
     [ucast w, ucast (drop_bit 8 w), ucast (drop_bit 16 w), ucast (drop_bit 24 w),
      ucast (drop_bit 32 w), ucast (drop_bit 40 w), ucast (drop_bit 48 w),
      ucast (drop_bit 56 w)]"

definition write_i32 :: "int \<Rightarrow> byte list" where
  "write_i32 i = write_u32 (word_of_int i)"

definition write_entity :: "entity \<Rightarrow> byte list" where
  "write_entity e = write_i32 e"

definition write_bool :: "bool \<Rightarrow> byte list" where
  "write_bool b = [if b then 1 else 0]"

definition write_f32 :: "Codec \<Rightarrow> real \<Rightarrow> byte list" where
  "write_f32 C x = write_u32 (float_bits C x)"

definition write_Vec3 :: "Codec \<Rightarrow> Vec3 \<Rightarrow> byte list" where
  "write_Vec3 C v = (case v of (x, y, z) \<Rightarrow> write_f32 C x @ write_f32 C y @ write_f32 C z)"

definition write_Quat :: "Codec \<Rightarrow> Quat \<Rightarrow> byte list" where
  "write_Quat C q =
     (case q of (x, y, z, w) \<Rightarrow> write_f32 C x @ write_f32 C y @ write_f32 C z @ write_f32 C w)"

fun le_word :: "byte list \<Rightarrow> 'a::len word" where
  "le_word [] = 0"
| "le_word (b # bs) = ucast b OR push_bit 8 (le_word bs)"

definition read_bytes :: "nat \<Rightarrow> byte list \<Rightarrow> error + (byte list \<times> byte list)" where
  "read_bytes n blob = (if length blob < n then Inl EndOfBlob else Inr (take n blob, drop n blob))"

definition read_u16 :: "byte list \<Rightarrow> error + (16 word \<times> byte list)" where
  "read_u16 blob = (case read_bytes 2 blob of Inl err \<Rightarrow> Inl err
                    | Inr (bs, rest) \<Rightarrow> Inr (le_word bs, rest))"

definition read_u32 :: "byte list \<Rightarrow> error + (32 word \<times> byte list)" where
  "read_u32 blob = (case read_bytes 4 blob of Inl err \<Rightarrow> Inl err
                    | Inr (bs, rest) \<Rightarrow> Inr (le_word bs, rest))"

definition read_u64 :: "byte list \<Rightarrow> error + (64 word \<times> byte list)" where
  "read_u64 blob = (case read_bytes 8 blob of Inl err \<Rightarrow> Inl err
                    | Inr (bs, rest) \<Rightarrow> Inr (le_word bs, rest))"

definition read_i32 :: "byte list \<Rightarrow> error + (int \<times> byte list)" where
  "read_i32 blob = (case read_u32 blob of Inl err \<Rightarrow> Inl err
                    | Inr (w, rest) \<Rightarrow> Inr (sint w, rest))"

subsection \<open>Writing the scene\<close>

definition serializeCameras :: "Codec \<Rightarrow> scene \<Rightarrow> byte list" where
  "serializeCameras C s =
     write_i32 (int (length (m_cameras s)))
     @ concat (map (\<lambda>(key, camera).
                      write_entity (cam_entity camera) @ write_f32 C (cam_far camera)
                      @ write_f32 C (cam_fov camera) @ write_bool (cam_is_ortho camera)
                      @ write_f32 C (cam_ortho_size camera) @ write_f32 C (cam_near camera))
                 (m_cameras s))"

text \<open>
  One model instance in \<open>serializeModelInstances\<close>: the entity, the persistent flags, and
  for a live instance the hash of the model's path, the number of custom materials and
  their paths. The materials count as changed when the model is ready and the \<open>meshes\<close>
  pointer is not the model's own mesh array.
\<close>

fun write_material_paths :: "Codec \<Rightarrow> Engine \<Rightarrow> Mesh list \<Rightarrow> error + byte list" where
  "write_material_paths C eng [] = Inr []"
| "write_material_paths C eng (mesh # meshes) =
     (case mesh_material mesh of
        None \<Rightarrow> Inl NullDeref
      | Some mat \<Rightarrow>
          (case write_material_paths C eng meshes of
             Inl err \<Rightarrow> Inl err
           | Inr rest \<Rightarrow> Inr (enc_cstring C (material_path (eng_materials eng mat)) @ rest)))"

definition serializeModelInstance_entry :: "Codec \<Rightarrow> Engine \<Rightarrow> ModelInstance \<Rightarrow> error + byte list" where
  "serializeModelInstance_entry C eng r =
     (let head = write_entity (mi_entity r)
                 @ write_u8 (enc_flags C (mi_flags r \<inter> PERSISTENT_FLAGS C))
      in if mi_entity r = INVALID_ENTITY then Inr head
         else
           let hash = (case mi_model r of None \<Rightarrow> 0
                       | Some m \<Rightarrow> model_path_hash (eng_models eng m));
               has_changed_materials =
                 (case mi_model r of None \<Rightarrow> False
                  | Some m \<Rightarrow> model_isReady (eng_models eng m) \<and> mi_meshes r \<noteq> ModelMeshes m)
           in if \<not> has_changed_materials then Inr (head @ write_u32 hash @ write_i32 0)
              else
                (case meshes_view eng (mi_meshes r) of
                   None \<Rightarrow> if mi_mesh_count r > 0 then Inl NullDeref
                            else Inr (head @ write_u32 hash @ write_i32 (mi_mesh_count r))
                 | Some ms \<Rightarrow>
                     if int (length ms) < mi_mesh_count r then Inl OutOfBounds
                     else (case write_material_paths C eng (take (nat (mi_mesh_count r)) ms) of
                             Inl err \<Rightarrow> Inl err
                           | Inr paths \<Rightarrow>
                               Inr (head @ write_u32 hash @ write_i32 (mi_mesh_count r) @ paths))))"

fun serializeModelInstance_entries ::
  "Codec \<Rightarrow> Engine \<Rightarrow> ModelInstance list \<Rightarrow> error + byte list" where
  "serializeModelInstance_entries C eng [] = Inr []"
| "serializeModelInstance_entries C eng (r # rs) =
     (case serializeModelInstance_entry C eng r of
        Inl err \<Rightarrow> Inl err
      | Inr bytes \<Rightarrow>
          (case serializeModelInstance_entries C eng rs of
             Inl err \<Rightarrow> Inl err
           | Inr rest \<Rightarrow> Inr (bytes @ rest)))"

definition serializeModelInstances :: "Codec \<Rightarrow> scene \<Rightarrow> error + byte list" where
  "serializeModelInstances C s =
     (case serializeModelInstance_entries C (m_engine s) (m_model_instances s) of
        Inl err \<Rightarrow> Inl err
      | Inr entries \<Rightarrow> Inr (write_i32 (int (length (m_model_instances s))) @ entries))"

definition serializeLights :: "Codec \<Rightarrow> scene \<Rightarrow> byte list" where
  "serializeLights C s =
     write_i32 (int (length (m_point_lights s)))
     @ concat (map (enc_point_light C) (m_point_lights s))
     @ write_i32 (int (length (m_global_lights s)))
     @ concat (map (\<lambda>(key, light). enc_global_light C light) (m_global_lights s))
     @ write_entity (m_active_global_light_entity s)"

definition serializeTerrains :: "Codec \<Rightarrow> scene \<Rightarrow> byte list" where
  "serializeTerrains C s =
     write_i32 (int (length (m_terrains s)))
     @ concat (map (\<lambda>(key, terrain). enc_terrain C terrain) (m_terrains s))"

definition serializeParticleEmitters :: "Codec \<Rightarrow> scene \<Rightarrow> byte list" where
  "serializeParticleEmitters C s =
     write_i32 (int (length (m_particle_emitters s)))
     @ concat (map (\<lambda>(key, emitter). enc_emitter C emitter) (m_particle_emitters s))"

definition serializeBoneAttachments :: "Codec \<Rightarrow> scene \<Rightarrow> byte list" where
  "serializeBoneAttachments C s =
     write_i32 (int (length (m_bone_attachments s)))
     @ concat (map (\<lambda>(key, attachment).
                      write_i32 (ba_bone_index attachment) @ write_entity (ba_entity attachment)
                      @ write_entity (ba_parent_entity attachment)
                      @ write_Vec3 C (lrt_pos (ba_relative_transform attachment))
                      @ write_Quat C (lrt_rot (ba_relative_transform attachment)))
                 (m_bone_attachments s))"

definition serializeEnvironmentProbes :: "Codec \<Rightarrow> scene \<Rightarrow> byte list" where
  "serializeEnvironmentProbes C s =
     write_i32 (int (length (m_environment_probes s)))
     @ concat (map (\<lambda>(entity, probe).
                      write_entity entity @ write_f32 C (probe_radius probe)
                      @ write_u64 (probe_guid probe) @ write_u32 (probe_flags probe)
                      @ write_u16 (probe_radiance_size probe)
                      @ write_u16 (probe_irradiance_size probe)
                      @ write_u16 (probe_reflection_size probe))
                 (m_environment_probes s))"

definition serializeDecals :: "Codec \<Rightarrow> scene \<Rightarrow> byte list" where
  "serializeDecals C s =
     write_i32 (int (length (m_decals s)))
     @ concat (map (\<lambda>(key, decal).
                      write_entity (decal_entity decal) @ write_Vec3 C (decal_scale decal)
                      @ enc_cstring C (case decal_material decal of
                                         None \<Rightarrow> []
                                       | Some mat \<Rightarrow> material_path (eng_materials (m_engine s) mat)))
                 (m_decals s))"

definition serializeTextMeshes :: "Codec \<Rightarrow> scene \<Rightarrow> byte list" where
  "serializeTextMeshes C s =
     write_i32 (int (length (m_text_meshes s)))
     @ concat (map (\<lambda>(e, text).
                      write_entity e
                      @ enc_cstring C (case tm_font_resource text of None \<Rightarrow> [] | Some path \<Rightarrow> path)
                      @ write_u32 (tm_color text) @ write_i32 (tm_font_size text)
                      @ enc_string C (tm_text text))
                 (m_text_meshes s))"

text \<open>\<open>serialize\<close>: the nine sections, in the order of the calls.\<close>

definition serialize :: "Codec \<Rightarrow> scene \<Rightarrow> error + byte list" where
  "serialize C s =
     (case serializeModelInstances C s of
        Inl err \<Rightarrow> Inl err
      | Inr model_instances \<Rightarrow>
          Inr (serializeCameras C s @ model_instances @ serializeLights C s
               @ serializeTerrains C s @ serializeParticleEmitters C s
               @ serializeBoneAttachments C s @ serializeEnvironmentProbes C s
               @ serializeDecals C s @ serializeTextMeshes C s))"

subsection \<open>Environment probes: creating, and reading the section back\<close>

text \<open>
  What \<open>AssociativeArray::insert(entity)\<close> yields for a probe before the code assigns
  members: the sizes have the initialisers of the struct, the flag set is empty, and the
  model starts the members without an initialiser at null or zero.
\<close>

definition inserted_probe :: EnvironmentProbe where
  "inserted_probe =
     \<lparr>probe_texture = None, probe_irradiance = None, probe_radiance = None,
      probe_radius = 0, probe_guid = 0, probe_flags = 0, probe_radiance_size = 128,
      probe_irradiance_size = 32, probe_reflection_size = 1024\<rparr>"

text \<open>\<open>createEnvironmentProbe\<close>; the result of \<open>Math::randGUID()\<close> is the argument \<open>guid\<close>.\<close>

definition createEnvironmentProbe :: "Codec \<Rightarrow> scene \<Rightarrow> entity \<Rightarrow> 64 word \<Rightarrow> scene" where
  "createEnvironmentProbe C s entity guid =
     (let probe = inserted_probe
            \<lparr>probe_texture := Some (load_texture C ''models/common/default_probe.dds''),
             probe_irradiance := Some (load_texture C ''models/common/default_probe.dds''),
             probe_radiance := Some (load_texture C ''models/common/default_probe.dds''),
             probe_radius := 1,
             probe_flags := probe_flags inserted_probe OR PROBE_ENABLED,
             probe_guid := guid\<rparr>
      in onComponentCreated
           (s\<lparr>m_environment_probes := m_environment_probes s @ [(entity, probe)]\<rparr>)
           entity ENVIRONMENT_PROBE_TYPE)"

definition setEnvironmentProbeRadius :: "scene \<Rightarrow> entity \<Rightarrow> real \<Rightarrow> error + scene" where
  "setEnvironmentProbeRadius s entity radius =
     (case map_of (m_environment_probes s) entity of
        None \<Rightarrow> Inl KeyNotFound
      | Some probe \<Rightarrow>
          Inr (s\<lparr>m_environment_probes :=
                   assoc_put entity (probe\<lparr>probe_radius := radius\<rparr>) (m_environment_probes s)\<rparr>))"

text \<open>
  One round of the loop of \<open>deserializeEnvironmentProbes\<close>: the entity, then the guid, the
  flags and the three sizes are read, in this order; the textures are loaded from the
  paths that the guid gives.
\<close>

definition deserializeEnvironmentProbe_entry ::
  "Codec \<Rightarrow> scene \<Rightarrow> byte list \<Rightarrow> error + (scene \<times> byte list)" where
  "deserializeEnvironmentProbe_entry C s blob =
     (case read_i32 blob of Inl err \<Rightarrow> Inl err | Inr (entity, b1) \<Rightarrow>
      case read_u64 b1 of Inl err \<Rightarrow> Inl err | Inr (guid, b2) \<Rightarrow>
      case read_u32 b2 of Inl err \<Rightarrow> Inl err | Inr (flags, b3) \<Rightarrow>
      case read_u16 b3 of Inl err \<Rightarrow> Inl err | Inr (radiance_size, b4) \<Rightarrow>
      case read_u16 b4 of Inl err \<Rightarrow> Inl err | Inr (irradiance_size, b5) \<Rightarrow>
      case read_u16 b5 of Inl err \<Rightarrow> Inl err | Inr (reflection_size, b6) \<Rightarrow>
        let probe_dir = ''universes/'' @ universe_name C @ ''/probes/'';
            probe = inserted_probe
              \<lparr>probe_guid := guid, probe_flags := flags,
               probe_radiance_size := radiance_size,
               probe_irradiance_size := irradiance_size,
               probe_reflection_size := reflection_size,
               probe_texture :=
                 (if flags AND PROBE_REFLECTION \<noteq> 0
                  then Some (load_texture C (probe_dir @ guid_text C guid @ ''.dds''))
                  else None),
               probe_irradiance :=
                 Some (load_texture C (probe_dir @ guid_text C guid @ ''_irradiance.dds'')),
               probe_radiance :=
                 Some (load_texture C (probe_dir @ guid_text C guid @ ''_radiance.dds''))\<rparr>
        in Inr (onComponentCreated
                  (s\<lparr>m_environment_probes := m_environment_probes s @ [(entity, probe)]\<rparr>)
                  entity ENVIRONMENT_PROBE_TYPE, b6))"

fun deserializeEnvironmentProbes_loop ::
  "Codec \<Rightarrow> nat \<Rightarrow> scene \<Rightarrow> byte list \<Rightarrow> error + (scene \<times> byte list)" where
  "deserializeEnvironmentProbes_loop C 0 s blob = Inr (s, blob)"
| "deserializeEnvironmentProbes_loop C (Suc n) s blob =
     (case deserializeEnvironmentProbe_entry C s blob of
        Inl err \<Rightarrow> Inl err
      | Inr (s1, rest) \<Rightarrow> deserializeEnvironmentProbes_loop C n s1 rest)"

definition deserializeEnvironmentProbes ::
  "Codec \<Rightarrow> scene \<Rightarrow> byte list \<Rightarrow> error + (scene \<times> byte list)" where
  "deserializeEnvironmentProbes C s blob =
     (case read_i32 blob of
        Inl err \<Rightarrow> Inl err
      | Inr (count, rest) \<Rightarrow> deserializeEnvironmentProbes_loop C (nat count) s rest)"

section \<open>The visible mesh instances\<close>


definition vsub :: "DVec3 \<Rightarrow> DVec3 \<Rightarrow> DVec3" where
  "vsub a b = (case a of (ax, ay, az) \<Rightarrow> case b of (bx, by, bz) \<Rightarrow> (ax - bx, ay - by, az - bz))"














section \<open>Ray casting\<close>







definition precise_hit :: "External \<Rightarrow> scene \<Rightarrow> DVec3 \<Rightarrow> Vec3 \<Rightarrow> nat \<Rightarrow> RayCastModelHit" where
  "precise_hit ext s origin dir i =
     (let r = m_model_instances s ! i
      in model_castRay (eng_models (m_engine s) (the (mi_model r)))
           (ext_toFloat ext (vsub origin (getPosition s (mi_entity r)))) dir (mi_pose r))"



definition instance_hit :: "External \<Rightarrow> scene \<Rightarrow> DVec3 \<Rightarrow> Vec3 \<Rightarrow> nat \<Rightarrow> RayCastModelHit" where
  "instance_hit ext s origin dir i =
     (precise_hit ext s origin dir i)
       \<lparr>hit_entity := mi_entity (m_model_instances s ! i),
        hit_component_type := Some MODEL_INSTANCE_TYPE\<rparr>"









section \<open>Example scenes\<close>

text \<open>
  A transform algebra for the examples: positions add, the coordinates of rotations add,
  scales multiply. It is exact. \<open>Mesh::set\<close> copies all of the source mesh but the
  material.
\<close>

definition vadd :: "Vec3 \<Rightarrow> Vec3 \<Rightarrow> Vec3" where
  "vadd a b = (case a of (ax, ay, az) \<Rightarrow> case b of (bx, by, bz) \<Rightarrow> (ax + bx, ay + by, az + bz))"

definition qadd :: "Quat \<Rightarrow> Quat \<Rightarrow> Quat" where
  "qadd a b = (case a of (ax, ay, az, aw) \<Rightarrow> case b of (bx, by, bz, bw) \<Rightarrow>
                (ax + bx, ay + by, az + bz, aw + bw))"

definition shift_algebra :: External where
  "shift_algebra =
     \<lparr>ext_mul_rigid = (\<lambda>t r. \<lparr>tr_pos = vadd (tr_pos t) (lrt_pos r),
                               tr_rot = qadd (tr_rot t) (lrt_rot r), tr_scale = tr_scale t\<rparr>),
      ext_mul = (\<lambda>a b. \<lparr>tr_pos = vadd (tr_pos a) (tr_pos b),
                         tr_rot = qadd (tr_rot a) (tr_rot b), tr_scale = tr_scale a * tr_scale b\<rparr>),
      ext_inverted = (\<lambda>t. \<lparr>tr_pos = (case tr_pos t of (x, y, z) \<Rightarrow> (- x, - y, - z)),
                            tr_rot = (case tr_rot t of (x, y, z, w) \<Rightarrow> (- x, - y, - z, - w)),
                            tr_scale = 1 / tr_scale t\<rparr>),
      ext_toFloat = (\<lambda>p. p),
      ext_mesh_set = (\<lambda>m src. src\<lparr>mesh_material := mesh_material m\<rparr>),
      ext_new_mesh = \<lparr>mesh_material = None, mesh_layer_mask = 0\<rparr>\<rparr>"

text \<open>
  A scene for the examples: the model 3 is ready and has one bone, at \<open>(1, 2, 3)\<close>; entity
  0 carries an instance of it; the entities 1 and 2 are attached to bone 0 of entity 0.
\<close>

definition skeleton_pose :: Pose where
  "skeleton_pose = \<lparr>pose_count = 1, pose_positions = [(1, 2, 3)],
                    pose_rotations = [(0, 0, 0, 1)], pose_is_absolute = True\<rparr>"

definition skeleton_model :: Model where
  "skeleton_model = blank_model\<lparr>model_isReady := True, model_BoneCount := 1,
       model_pose := skeleton_pose,
       model_meshes := [\<lparr>mesh_material = Some 7, mesh_layer_mask = 1\<rparr>]\<rparr>"

definition rig_engine :: Engine where
  "rig_engine = blank_engine\<lparr>eng_models := (\<lambda>m. blank_model)(3 := skeleton_model)\<rparr>"

definition rig_scene :: "External \<Rightarrow> error + scene" where
  "rig_scene X =
     bindE (bindE (bindE (bindE (bindE (bindE
       (createModelInstance (RenderSceneImpl blank_universe rig_engine) 0)
       (\<lambda>s. setModel X s 0 (Some 3)))
       (\<lambda>s. Inr (setTransform (setTransform (createBoneAttachment (createBoneAttachment s 1) 2)
                1 \<lparr>tr_pos = (5, 0, 0), tr_rot = (0, 0, 0, 1), tr_scale = 2\<rparr>)
                2 \<lparr>tr_pos = (0, 7, 0), tr_rot = (0, 0, 0, 1), tr_scale = 1\<rparr>)))
       (\<lambda>s. setBoneAttachmentParent X s 1 0))
       (\<lambda>s. setBoneAttachmentParent X s 2 0))
       (\<lambda>s. setBoneAttachmentBone X s 1 0))
       (\<lambda>s. setBoneAttachmentBone X s 2 0)"

text \<open>The example scene after its parent entity 0 has been moved to \<open>(10, 0, 0)\<close>, and
  the two attachments it holds.\<close>

definition rig_moved :: scene where
  "rig_moved = setTransform (projr (rig_scene shift_algebra)) 0
                 \<lparr>tr_pos = (10, 0, 0), tr_rot = (0, 0, 0, 1), tr_scale = 1\<rparr>"

definition rig_attachment_1 :: BoneAttachment where
  "rig_attachment_1 = \<lparr>ba_entity = 1, ba_parent_entity = 0, ba_bone_index = 0,
      ba_relative_transform = \<lparr>lrt_pos = (4, -2, -3), lrt_rot = (0, 0, 0, -1)\<rparr>\<rparr>"

definition rig_attachment_2 :: BoneAttachment where
  "rig_attachment_2 = \<lparr>ba_entity = 2, ba_parent_entity = 0, ba_bone_index = 0,
      ba_relative_transform = \<lparr>lrt_pos = (-1, 5, -3), lrt_rot = (0, 0, 0, -1)\<rparr>\<rparr>"

text \<open>
  A second example. The models 1 and 2 are still loading. Three instances are created
  for the entities 0, 1 and 2 and all given the model 1; then entity 1 is given the model
  2. At last the model 1 becomes ready and the scene is told so.
\<close>

definition tree_model :: Model where
  "tree_model = blank_model\<lparr>model_meshes := [\<lparr>mesh_material = Some 7, mesh_layer_mask = 1\<rparr>],
                            model_BoundingRadius := 2\<rparr>"

definition tree_engine :: Engine where
  "tree_engine = blank_engine\<lparr>eng_models := (\<lambda>m. blank_model)(1 := tree_model)\<rparr>"

definition three_instances :: "error + scene" where
  "three_instances =
     bindE (bindE (createModelInstance (RenderSceneImpl blank_universe tree_engine) 0)
       (\<lambda>s. createModelInstance s 1)) (\<lambda>s. createModelInstance s 2)"

definition shared_model_scene :: "External \<Rightarrow> error + scene" where
  "shared_model_scene X =
     bindE (bindE (bindE (bindE three_instances
       (\<lambda>s. setModel X s 0 (Some 1)))
       (\<lambda>s. setModel X s 1 (Some 1)))
       (\<lambda>s. setModel X s 2 (Some 1)))
       (\<lambda>s. setModel X s 1 (Some 2))"

definition shared_model_scenario :: "External \<Rightarrow> (error + scene) option" where
  "shared_model_scenario X =
     (case shared_model_scene X of
        Inl err \<Rightarrow> Some (Inl err)
      | Inr s \<Rightarrow> modelStateChanged X (set_model_ready s 1 True) EMPTY READY 1)"

text \<open>
  A third example: one environment probe on entity 5, with the guid
  \<open>0x0123456789ABCDEF\<close> and the radius 3.
\<close>

definition probe_scene :: "Codec \<Rightarrow> error + scene" where
  "probe_scene C =
     setEnvironmentProbeRadius
       (createEnvironmentProbe C (RenderSceneImpl blank_universe blank_engine) 5 0x0123456789ABCDEF)
       5 3"

text \<open>
  A codec for the examples: floats, structs and strings take no or zero bytes; the
  persistent flags are all but the custom-meshes flag. And a scene with a camera on
  entity 7 and one model instance, on entity 2, so that the slots 0 and 1 of the table
  are holes.
\<close>

definition demo_codec :: Codec where
  "demo_codec =
     \<lparr>float_bits = (\<lambda>x. 0), enc_point_light = (\<lambda>l. []), enc_global_light = (\<lambda>l. []),
      enc_terrain = (\<lambda>t. []), enc_emitter = (\<lambda>e. []), enc_cstring = (\<lambda>str. []),
      enc_string = (\<lambda>str. []),
      enc_flags = (\<lambda>f. (if CUSTOM_MESHES \<in> f then 1 else 0)
                          OR (if IS_BONE_ATTACHMENT_PARENT \<in> f then 4 else 0)
                          OR (if ENABLED \<in> f then 8 else 0)),
      PERSISTENT_FLAGS = {IS_BONE_ATTACHMENT_PARENT, ENABLED},
      universe_name = ''demo'', guid_text = (\<lambda>g. ''guid''), load_texture = length\<rparr>"

definition sparse_scene :: scene where
  "sparse_scene =
     projr (createModelInstance (createCamera (RenderSceneImpl blank_universe blank_engine) 7) 2)"

definition sparse_blob :: "byte list" where
  "sparse_blob = projr (serialize demo_codec sparse_scene)"


definition lod_model :: Model where
  "lod_model = blank_model\<lparr>model_isReady := True,
      model_meshes := [\<lparr>mesh_material = Some 7, mesh_layer_mask = 1\<rparr>,
                       \<lparr>mesh_material = Some 8, mesh_layer_mask = 1\<rparr>,
                       \<lparr>mesh_material = Some 7, mesh_layer_mask = 2\<rparr>],
      model_LODMeshIndices := (\<lambda>d. if d < 100 then (0, 2) else (2, 2))\<rparr>"

definition lod_engine :: Engine where
  "lod_engine = \<lparr>eng_models = (\<lambda>m. blank_model)(4 := lod_model),
                 eng_materials = (\<lambda>m. blank_material)
                   (7 := blank_material\<lparr>material_isReady := True, material_RenderLayerMask := 3\<rparr>)\<rparr>"

definition lod_scene :: scene where
  "lod_scene = projr (bindE (createModelInstance (RenderSceneImpl blank_universe lod_engine) 0)
                        (\<lambda>s. setModel shift_algebra s 0 (Some 4)))"








section \<open>Properties of the bone attachments\<close>




text \<open>A pose holds as many positions and rotations as it counts bones.\<close>

definition pose_wf :: "Pose \<Rightarrow> bool" where
  "pose_wf pose = (length (pose_positions pose) = nat (pose_count pose)
                 \<and> length (pose_rotations pose) = nat (pose_count pose))"


lemma updateBoneAttachment_noop:
  assumes "\<not> isValid (ba_parent_entity ba)
     \<or> \<not> hasComponent s (ba_parent_entity ba) MODEL_INSTANCE_TYPE
     \<or> lockPose s (ba_parent_entity ba) = Inr None
     \<or> (\<exists>pose. lockPose s (ba_parent_entity ba) = Inr (Some pose)
          \<and> (ba_bone_index ba < 0 \<or> pose_count pose < ba_bone_index ba))"
  shows "updateBoneAttachment X s ba = Inr s"
  using assms by (auto simp: updateBoneAttachment_def Let_def)

lemma updateRelativeMatrix_noop:
  assumes "\<not> isValid (ba_parent_entity ba)
     \<or> \<not> hasComponent s (ba_parent_entity ba) MODEL_INSTANCE_TYPE
     \<or> lockPose s (ba_parent_entity ba) = Inr None
     \<or> ba_bone_index ba < 0
     \<or> (\<exists>pose. lockPose s (ba_parent_entity ba) = Inr (Some pose) \<and> pose_is_absolute pose
          \<and> pose_count pose \<le> ba_bone_index ba)"
  shows "updateRelativeMatrix X s ba = Inr ba"
  using assms by (auto simp: updateRelativeMatrix_def Let_def)





lemma unlockPose_unchanged: "unlockPose X s e False = Inr s"
  by (simp add: unlockPose_def)

text \<open>
  Claim C10. Destroying a bone attachment whose parent is valid and within the
  model-instance table clears the parent's is-bone-attachment-parent flag, whatever
  other attachments the table still holds for that parent; afterwards \<open>unlockPose\<close> of
  the parent with a changed pose returns the scene as it is, so no remaining attachment
  is updated forward.
\<close>

theorem destroyBoneAttachment_clears_parent_flag:
  assumes stored: "map_of (m_bone_attachments s) e = Some ba"
    and valid: "isValid (ba_parent_entity ba)"
    and inrange: "ba_parent_entity ba < int (length (m_model_instances s))"
  shows "\<exists>s'. destroyBoneAttachment s e = Inr s'
      \<and> IS_BONE_ATTACHMENT_PARENT \<notin> mi_flags (m_model_instances s' ! nat (ba_parent_entity ba))
      \<and> m_bone_attachments s' = assoc_erase e (m_bone_attachments s)
      \<and> unlockPose X s' (ba_parent_entity ba) True = Inr s'"
proof -
  let ?p = "ba_parent_entity ba"
  define s' where "s' = onComponentDestroyed
     ((set_instance_flags s ?p (\<lambda>f. f - {IS_BONE_ATTACHMENT_PARENT}))
        \<lparr>m_bone_attachments := assoc_erase e (m_bone_attachments s)\<rparr>) e BONE_ATTACHMENT_TYPE"
  have run: "destroyBoneAttachment s e = Inr s'"
    using stored valid inrange
    by (simp add: destroyBoneAttachment_def Let_def s'_def set_instance_flags_def)
  have p0: "0 \<le> ?p" using valid by (simp add: isValid_def)
  hence pn: "nat ?p < length (m_model_instances s)" using inrange by simp
  have len: "length (m_model_instances s') = length (m_model_instances s)"
    by (simp add: s'_def onComponentDestroyed_def set_instance_flags_def)
  have flag: "IS_BONE_ATTACHMENT_PARENT \<notin> mi_flags (m_model_instances s' ! nat ?p)"
    using pn by (simp add: s'_def onComponentDestroyed_def set_instance_flags_def)
  have atts: "m_bone_attachments s' = assoc_erase e (m_bone_attachments s)"
    by (simp add: s'_def onComponentDestroyed_def set_instance_flags_def)
  have unlock: "unlockPose X s' ?p True = Inr s'"
    using p0 inrange flag len by (simp add: unlockPose_def)
  show ?thesis using run flag atts unlock by blast
qed

lemmas rig_defs = createModelInstance_def onComponentCreated_def RenderSceneImpl_def
  emplaced_instance_def Let_def bindE_def setModel_def detach_model_def attach_model_def
  isValid_def INVALID_ENTITY_def
  put_instance_def addToModelEntityMap_def removeFromModelEntityMap_def freeCustomMeshes_def
  hasCustomMeshes_def rig_engine_def blank_engine_def blank_model_def skeleton_model_def
  culling_remove_def culling_add_def modelLoaded_entity_def bind_meshes_def getLayerMask_def
  createBoneAttachment_def setTransform_def setBoneAttachmentParent_def set_instance_flags_def
  updateRelativeMatrix_def hasComponent_def lockPose_def setBoneAttachmentBone_def assoc_put_def
  skeleton_pose_def getTransform_def blank_universe_def rest_transform_def

lemma rig_scene_shape: "\<exists>s. rig_scene X = Inr s \<and> map fst (m_bone_attachments s) = [1, 2]
    \<and> map (ba_parent_entity \<circ> snd) (m_bone_attachments s) = [0, 0]
    \<and> map (ba_bone_index \<circ> snd) (m_bone_attachments s) = [0, 0]
    \<and> lockPose s 0 = Inr (Some skeleton_pose)
    \<and> mi_flags (m_model_instances s ! 0) = {ENABLED, IS_BONE_ATTACHMENT_PARENT}"
  unfolding rig_scene_def
  by (simp add: rig_defs insert_commute)

lemma rig_scene_relative_transforms: "\<exists>s. rig_scene shift_algebra = Inr s
    \<and> map (ba_relative_transform \<circ> snd) (m_bone_attachments s) =
        [\<lparr>lrt_pos = (4, -2, -3), lrt_rot = (0, 0, 0, -1)\<rparr>, \<lparr>lrt_pos = (-1, 5, -3), lrt_rot = (0, 0, 0, -1)\<rparr>]"
  unfolding rig_scene_def
  by (simp add: rig_defs shift_algebra_def vadd_def qadd_def)

text \<open>
  Claim C4, at the input where the code departs from it. In the example scene the pose of
  the parent counts one bone. For the attachment of entity 1 with the bone index 1, one
  past the last bone, the backward update \<open>updateRelativeMatrix\<close> returns the attachment
  unchanged, while the forward update \<open>updateBoneAttachment\<close> passes its range check and
  reads the pose arrays out of bounds, here through \<open>setBoneAttachmentPosition\<close> as well.
\<close>

theorem forward_update_reads_past_last_bone:
  "\<exists>s ba. rig_scene X = Inr s
     \<and> map_of (m_bone_attachments s) 1 = Some ba
     \<and> lockPose s (ba_parent_entity ba) = Inr (Some skeleton_pose)
     \<and> pose_count skeleton_pose = 1 \<and> pose_wf skeleton_pose
     \<and> updateRelativeMatrix X s (ba\<lparr>ba_bone_index := 1\<rparr>) = Inr (ba\<lparr>ba_bone_index := 1\<rparr>)
     \<and> updateBoneAttachment X s (ba\<lparr>ba_bone_index := 1\<rparr>) = Inl OutOfBounds
     \<and> (\<exists>s1. setBoneAttachmentBone X s 1 1 = Inr s1
           \<and> setBoneAttachmentPosition X s1 1 (0, 0, 0) = Inl OutOfBounds)"
  unfolding rig_scene_def
  by (simp add: rig_defs pose_wf_def updateBoneAttachment_def setBoneAttachmentPosition_def)

lemmas moved_defs = rig_moved_def rig_scene_def rig_defs shift_algebra_def vadd_def qadd_def
  rig_attachment_1_def rig_attachment_2_def

lemma rig_moved_attachments:
  "m_bone_attachments rig_moved = [(1, rig_attachment_1), (2, rig_attachment_2)]"
  by (simp add: moved_defs)



lemma rig_moved_transforms:
  "getTransform rig_moved 0 = \<lparr>tr_pos = (10, 0, 0), tr_rot = (0, 0, 0, 1), tr_scale = 1\<rparr>"
  "getTransform rig_moved 1 = \<lparr>tr_pos = (5, 0, 0), tr_rot = (0, 0, 0, 1), tr_scale = 2\<rparr>"
  "getTransform rig_moved 2 = \<lparr>tr_pos = (0, 7, 0), tr_rot = (0, 0, 0, 1), tr_scale = 1\<rparr>"
  by (simp_all add: moved_defs)


theorem destroyBoneAttachment_clears_parent_flag_witness:
  "map_of (m_bone_attachments rig_moved) 1 = Some rig_attachment_1
   \<and> isValid (ba_parent_entity rig_attachment_1)
   \<and> ba_parent_entity rig_attachment_1 < int (length (m_model_instances rig_moved))
   \<and> IS_BONE_ATTACHMENT_PARENT \<in> mi_flags (m_model_instances rig_moved ! 0)
   \<and> (\<exists>s2. unlockPose shift_algebra rig_moved 0 True = Inr s2
         \<and> tr_pos (getTransform s2 2) = (10, 7, 0))
   \<and> (\<exists>s'. destroyBoneAttachment rig_moved 1 = Inr s'
         \<and> IS_BONE_ATTACHMENT_PARENT \<notin> mi_flags (m_model_instances s' ! 0)
         \<and> m_bone_attachments s' = [(2, rig_attachment_2)]
         \<and> ba_parent_entity rig_attachment_2 = 0
         \<and> unlockPose shift_algebra s' 0 True = Inr s'
         \<and> tr_pos (getTransform s' 2) = (0, 7, 0))"
proof -
  have h1: "map_of (m_bone_attachments rig_moved) 1 = Some rig_attachment_1"
    by (simp add: rig_moved_attachments)
  have h2: "isValid (ba_parent_entity rig_attachment_1)"
    by (simp add: rig_attachment_1_def isValid_def)
  have h3: "ba_parent_entity rig_attachment_1 < int (length (m_model_instances rig_moved))"
    by (simp add: moved_defs)
  have flagged: "IS_BONE_ATTACHMENT_PARENT \<in> mi_flags (m_model_instances rig_moved ! 0)"
    by (simp add: moved_defs)
  have before: "\<exists>s2. unlockPose shift_algebra rig_moved 0 True = Inr s2
         \<and> tr_pos (getTransform s2 2) = (10, 7, 0)"
    by (simp add: unlockPose_def updateBoneAttachment_def getScale_def moved_defs)
  from destroyBoneAttachment_clears_parent_flag [OF h1 h2 h3, of shift_algebra]
  obtain s' where run: "destroyBoneAttachment rig_moved 1 = Inr s'"
    and flag: "IS_BONE_ATTACHMENT_PARENT \<notin> mi_flags (m_model_instances s' ! nat (ba_parent_entity rig_attachment_1))"
    and atts: "m_bone_attachments s' = assoc_erase 1 (m_bone_attachments rig_moved)"
    and unlock: "unlockPose shift_algebra s' (ba_parent_entity rig_attachment_1) True = Inr s'"
    by blast
  have f': "IS_BONE_ATTACHMENT_PARENT \<notin> mi_flags (m_model_instances s' ! 0)"
    using flag by (simp add: rig_attachment_1_def)
  have a': "m_bone_attachments s' = [(2, rig_attachment_2)]"
    unfolding atts by (simp add: rig_moved_attachments assoc_erase_def)
  have u': "unlockPose shift_algebra s' 0 True = Inr s'"
    using unlock by (simp add: rig_attachment_1_def)
  have "getTransform s' 2 = getTransform rig_moved 2"
    using run
    by (auto simp: destroyBoneAttachment_def h1 Let_def getTransform_def onComponentDestroyed_def
          set_instance_flags_def split: if_splits)
  hence t': "tr_pos (getTransform s' 2) = (0, 7, 0)"
    by (simp add: rig_moved_transforms)
  have p2: "ba_parent_entity rig_attachment_2 = 0" by (simp add: rig_attachment_2_def)
  show ?thesis using h1 h2 h3 flagged before run f' a' p2 u' t' by blast
qed

section \<open>Properties of the culling membership\<close>

lemmas shared_defs = createModelInstance_def onComponentCreated_def RenderSceneImpl_def
  emplaced_instance_def Let_def bindE_def setModel_def detach_model_def attach_model_def
  isValid_def INVALID_ENTITY_def
  put_instance_def addToModelEntityMap_def removeFromModelEntityMap_def freeCustomMeshes_def
  hasCustomMeshes_def tree_engine_def blank_engine_def blank_model_def tree_model_def
  culling_remove_def culling_add_def modelLoaded_entity_def bind_meshes_def getLayerMask_def
  modelStateChanged_def modelLoaded_def modelLoaded_walk.simps set_model_ready_def meshes_view_def

lemma shared_model_scene_lists:
  "\<exists>s. shared_model_scene X = Inr s
     \<and> map mi_model (m_model_instances s) = [Some 1, Some 2, Some 1]
     \<and> map mi_next_model (m_model_instances s) = [INVALID_ENTITY, INVALID_ENTITY, 1]
     \<and> map mi_prev_model (m_model_instances s) = [INVALID_ENTITY, INVALID_ENTITY, INVALID_ENTITY]
     \<and> m_model_entity_map s 1 = Some 2 \<and> m_model_entity_map s 2 = Some 1
     \<and> m_culling_system s = {}"
  unfolding shared_model_scene_def three_instances_def
  by (simp add: shared_defs)

text \<open>
  Claim C2, at the input where the code departs from it. \<open>addToModelEntityMap\<close> never
  writes the \<open>prev_model\<close> of the former head, so \<open>removeFromModelEntityMap\<close> does not
  unlink an entity that is not the head. In the second example entity 1 stays in the list
  of model 1 after it has taken model 2, and its \<open>next_model\<close> is overwritten: the list of
  model 1 is 2, 1 and ends there. When model 1 becomes ready the walk reaches the
  entities 2 and 1 and never entity 0. Afterwards entity 0 has a model-instance component
  whose model is ready and which is enabled, and is not in the culling system, while
  entity 1, whose model 2 is not ready, is.
\<close>

theorem model_ready_misses_instance:
  "\<exists>s. shared_model_scenario X = Some (Inr s)
     \<and> mi_entity (m_model_instances s ! 0) = 0
     \<and> hasComponent s 0 MODEL_INSTANCE_TYPE
     \<and> mi_model (m_model_instances s ! 0) = Some 1
     \<and> model_isReady (eng_models (m_engine s) 1)
     \<and> ENABLED \<in> mi_flags (m_model_instances s ! 0)
     \<and> \<not> isAdded s 0
     \<and> mi_model (m_model_instances s ! 1) = Some 2
     \<and> \<not> model_isReady (eng_models (m_engine s) 2)
     \<and> isAdded s 1"
  unfolding shared_model_scenario_def shared_model_scene_def three_instances_def
  by (simp add: shared_defs isAdded_def hasComponent_def)

text \<open>
  What does hold for one entity: after \<open>enableModelInstance\<close> on an instance whose model is
  ready, the entity is in the culling system exactly when it is enabled.
\<close>

lemma enableModelInstance_registers:
  assumes "enableModelInstance s e enable = Inr s'"
    and "mi_model (m_model_instances s ! nat e) = Some m"
    and "model_isReady (eng_models (m_engine s) m)"
  shows "isAdded s' e = enable \<and> (ENABLED \<in> mi_flags (m_model_instances s' ! nat e)) = enable"
  using assms
  by (auto simp: enableModelInstance_def Let_def put_instance_def culling_add_def culling_remove_def
        isAdded_def split: if_splits sum.splits)

section \<open>Properties of the binary stream\<close>

text \<open>
  In the model-instance table the slot at position \<open>i\<close> holds the entity \<open>i\<close> or the
  invalid entity.
\<close>

definition instance_table_ok :: "scene \<Rightarrow> bool" where
  "instance_table_ok s =
     (\<forall>i < length (m_model_instances s).
        mi_entity (m_model_instances s ! i) = int i
        \<or> mi_entity (m_model_instances s ! i) = INVALID_ENTITY)"

definition instance_entities :: "scene \<Rightarrow> entity list" where
  "instance_entities s = map mi_entity (m_model_instances s)"

lemma instance_table_ok_entities:
  "instance_table_ok s \<longleftrightarrow>
     (\<forall>i < length (instance_entities s). instance_entities s ! i = int i
         \<or> instance_entities s ! i = INVALID_ENTITY)"
  by (simp add: instance_table_ok_def instance_entities_def)

lemma put_instance_entities:
  assumes "mi_entity r = mi_entity (m_model_instances s ! i)"
  shows "instance_entities (put_instance s i r) = instance_entities s"
proof (cases "i < length (m_model_instances s)")
  case True
  then show ?thesis using assms
    by (simp add: instance_entities_def put_instance_def map_update list_update_same_conv)
next
  case False
  then show ?thesis by (simp add: instance_entities_def put_instance_def list_update_beyond not_less)
qed

lemma addToCustomMeshCallbacks_entities:
  "addToCustomMeshCallbacks s m e = Inr s' \<Longrightarrow> m_model_instances s' = m_model_instances s
     \<and> m_engine s' = m_engine s"
  by (auto simp: addToCustomMeshCallbacks_def split: option.splits)

lemma removeFromCustomMeshCallbacks_entities:
  "removeFromCustomMeshCallbacks s m e = Inr s' \<Longrightarrow> m_model_instances s' = m_model_instances s
     \<and> m_engine s' = m_engine s"
  by (auto simp: removeFromCustomMeshCallbacks_def Let_def split: option.splits if_splits)

lemma add_callbacks_loop_entities:
  "add_callbacks_loop s ms e = Inr s' \<Longrightarrow> m_model_instances s' = m_model_instances s
     \<and> m_engine s' = m_engine s"
proof (induction ms arbitrary: s)
  case Nil
  then show ?case by simp
next
  case (Cons m ms)
  then show ?case
    by (auto split: sum.splits dest!: addToCustomMeshCallbacks_entities)
qed

lemma remove_callbacks_loop_entities:
  "remove_callbacks_loop s ms e = Inr s' \<Longrightarrow> m_model_instances s' = m_model_instances s
     \<and> m_engine s' = m_engine s"
proof (induction ms arbitrary: s)
  case Nil
  then show ?case by simp
next
  case (Cons m ms)
  then show ?case
    by (auto split: sum.splits dest!: removeFromCustomMeshCallbacks_entities)
qed

lemma allocateCustomMeshes_entities:
  assumes "allocateCustomMeshes X s i count = Inr s'"
  shows "instance_entities s' = instance_entities s"
proof -
  have keep: "\<And>s1 r. m_model_instances s1 = m_model_instances s \<Longrightarrow>
      mi_entity r = mi_entity (m_model_instances s ! i) \<Longrightarrow>
      instance_entities (put_instance s1 i r) = instance_entities s"
    using put_instance_entities by (metis instance_entities_def)
  show ?thesis using assms
    by (auto simp: allocateCustomMeshes_def Let_def keep
          split: if_splits option.splits sum.splits dest!: add_callbacks_loop_entities)
qed

lemma freeCustomMeshes_entities:
  assumes "freeCustomMeshes s i = Inr s'"
  shows "instance_entities s' = instance_entities s"
proof -
  have keep: "\<And>s1 r. m_model_instances s1 = m_model_instances s \<Longrightarrow>
      mi_entity r = mi_entity (m_model_instances s ! i) \<Longrightarrow>
      instance_entities (put_instance s1 i r) = instance_entities s"
    using put_instance_entities by (metis instance_entities_def)
  show ?thesis using assms
    by (auto simp: freeCustomMeshes_def Let_def keep
          split: if_splits option.splits sum.splits dest!: remove_callbacks_loop_entities)
qed

lemma updateBoneAttachment_instances:
  "updateBoneAttachment X s ba = Inr s' \<Longrightarrow> m_model_instances s' = m_model_instances s"
  by (auto simp: updateBoneAttachment_def Let_def setTransform_def
        split: if_splits option.splits sum.splits)

lemma culling_entities [simp]:
  "instance_entities (culling_add s e) = instance_entities s"
  "instance_entities (culling_remove s e) = instance_entities s"
  "m_model_instances (culling_add s e) = m_model_instances s"
  "m_model_instances (culling_remove s e) = m_model_instances s"
  by (simp_all add: instance_entities_def culling_add_def culling_remove_def)

lemma entities_nth:
  "instance_entities s' = instance_entities s \<Longrightarrow> i < length (m_model_instances s) \<Longrightarrow>
     mi_entity (m_model_instances s' ! i) = mi_entity (m_model_instances s ! i)"
  by (metis instance_entities_def length_map nth_map)

lemma instances_entities:
  "m_model_instances s' = m_model_instances s \<Longrightarrow> instance_entities s' = instance_entities s"
  by (simp add: instance_entities_def)

lemma put_instance_nth_entity:
  "mi_entity r = mi_entity (m_model_instances s ! i) \<Longrightarrow>
     mi_entity (m_model_instances (put_instance s i r) ! i) = mi_entity (m_model_instances s ! i)"
  by (cases "i < length (m_model_instances s)")
     (simp_all add: put_instance_def list_update_beyond not_less)

lemma bindE_Inr: "bindE r f = Inr y \<Longrightarrow> \<exists>x. r = Inr x \<and> f x = Inr y"
  by (cases r) (simp_all add: bindE_def)

lemma bind_meshes_entities:
  assumes "bind_meshes X s i r m rm = Inr s'"
    and "mi_entity r = mi_entity (m_model_instances s ! i)"
  shows "instance_entities s' = instance_entities s"
proof (cases "mi_meshes r \<noteq> NoMeshes")
  case True
  with assms(1) obtain s2 where al: "allocateCustomMeshes X (put_instance s i r) i
        (int (length (model_meshes m))) = Inr s2"
    and fin: "(let r2 = m_model_instances s2 ! i
                    in (case meshes_view (m_engine s2) (mi_meshes r2) of
                          None \<Rightarrow> Inl NullDeref
                        | Some own \<Rightarrow>
                            bindE (relink_custom_meshes X (take (nat (mi_mesh_count r2)) own)
                                     (model_meshes m))
                              (\<lambda>relinked.
                                 Inr (put_instance s2 i
                                        (r2\<lparr>mi_meshes := OwnMeshes
                                           (relinked @ drop (nat (mi_mesh_count r2)) own)\<rparr>))))) = Inr s'"
    unfolding bind_meshes_def by (auto dest!: bindE_Inr)
  from fin obtain ms where "s' = put_instance s2 i ((m_model_instances s2 ! i)\<lparr>mi_meshes := ms\<rparr>)"
    by (auto simp: Let_def split: option.splits dest!: bindE_Inr)
  hence "instance_entities s' = instance_entities s2"
    by (simp add: put_instance_entities)
  moreover have "instance_entities s2 = instance_entities (put_instance s i r)"
    by (rule allocateCustomMeshes_entities[OF al])
  moreover have "instance_entities (put_instance s i r) = instance_entities s"
    by (rule put_instance_entities[OF assms(2)])
  ultimately show ?thesis by simp
next
  case False
  with assms(1) have "s' = put_instance s i
                  (r\<lparr>mi_meshes := ModelMeshes rm,
                     mi_mesh_count := int (length (model_meshes (eng_models (m_engine s) rm)))\<rparr>)"
    unfolding bind_meshes_def by simp
  thus ?thesis using assms(2) by (simp add: put_instance_entities)
qed

lemma modelLoaded_entity_entities:
  assumes "modelLoaded_entity X s model e = Inr s'"
  shows "instance_entities s' = instance_entities s"
proof -
  define i where "i = nat e"
  define r where "r = m_model_instances s ! i"
  define m where "m = eng_models (m_engine s) model"
  define r1 where "r1 = (if model_BoneCount m > 0 then r\<lparr>mi_pose := Some (model_pose m)\<rparr> else r)"
  define after where "after = (\<lambda>s3. if IS_BONE_ATTACHMENT_PARENT \<in> mi_flags r
                                     then (case map_of (m_bone_attachments s3) e of
                                             None \<Rightarrow> Inl KeyNotFound
                                           | Some ba \<Rightarrow> updateBoneAttachment X s3 ba)
                                     else Inr s3)"
  have r1e: "mi_entity r1 = mi_entity r" by (simp add: r1_def)
  have range: "\<not> (e < 0 \<or> int (length (m_model_instances s)) \<le> e)"
    using assms by (rule contrapos_pp) (simp add: modelLoaded_entity_def)
  obtain rm where rm: "mi_model r = Some rm"
    using assms range by (cases "mi_model r") (simp_all add: modelLoaded_entity_def Let_def i_def r_def)
  have eq: "modelLoaded_entity X s model e =
      bindE (if ENABLED \<in> mi_flags r
             then bindE (getLayerMask (m_engine s) r) (\<lambda>layer_mask. Inr (culling_add s e))
             else Inr s)
        (\<lambda>s1. if mi_pose r \<noteq> None then Inl AssertFailed
               else if model_BoneCount m > 0
                       \<and> list_ex (\<lambda>mesh. mesh_material mesh = None) (model_meshes m)
               then Inl NullDeref
               else if mi_meshes r1 \<noteq> NoMeshes \<and> \<not> hasCustomMeshes r1 then Inl AssertFailed
               else bindE (bind_meshes X s1 i r1 m rm) after)"
    unfolding modelLoaded_entity_def Let_def i_def r_def m_def r1_def after_def
    using range rm[unfolded r_def i_def] by simp
  from assms[unfolded eq] obtain s1 where
    a: "(if ENABLED \<in> mi_flags r
             then bindE (getLayerMask (m_engine s) r) (\<lambda>layer_mask. Inr (culling_add s e))
             else Inr s) = Inr s1"
    and f: "(if mi_pose r \<noteq> None then Inl AssertFailed
               else if model_BoneCount m > 0
                       \<and> list_ex (\<lambda>mesh. mesh_material mesh = None) (model_meshes m)
               then Inl NullDeref
               else if mi_meshes r1 \<noteq> NoMeshes \<and> \<not> hasCustomMeshes r1 then Inl AssertFailed
               else bindE (bind_meshes X s1 i r1 m rm) after) = Inr s'"
    by (blast dest: bindE_Inr)
  from a have inst1: "m_model_instances s1 = m_model_instances s"
    by (auto split: if_splits dest!: bindE_Inr)
  from f have "bindE (bind_meshes X s1 i r1 m rm) after = Inr s'"
    by (simp split: if_splits)
  then obtain s3 where bm: "bind_meshes X s1 i r1 m rm = Inr s3" and aft: "after s3 = Inr s'"
    by (blast dest: bindE_Inr)
  have "instance_entities s3 = instance_entities s1"
    by (rule bind_meshes_entities[OF bm]) (simp add: r1e inst1 r_def)
  moreover have "instance_entities s1 = instance_entities s"
    using inst1 by (rule instances_entities)
  moreover have "m_model_instances s' = m_model_instances s3"
    using aft unfolding after_def
    by (auto split: if_splits option.splits dest: updateBoneAttachment_instances)
  ultimately show ?thesis by (simp add: instance_entities_def)
qed

lemma addToModelEntityMap_entities:
  "instance_entities (addToModelEntityMap s model e) = instance_entities s"
proof -
  have "\<And>r. mi_entity r = mi_entity (m_model_instances s ! nat e) \<Longrightarrow>
     instance_entities ((put_instance s (nat e) r)\<lparr>m_model_entity_map := mp\<rparr>) = instance_entities s" for mp
    using put_instance_entities[of _ s "nat e"] by (simp add: instance_entities_def)
  thus ?thesis
    by (simp add: addToModelEntityMap_def Let_def split: option.splits)
qed

lemma removeFromModelEntityMap_entities:
  assumes "removeFromModelEntityMap s model e = Inr s'"
  shows "instance_entities s' = instance_entities s"
proof -
  define r where "r = m_model_instances s ! nat e"
  define s1 where "s1 = (if isValid (mi_prev_model r)
                     then put_instance s (nat (mi_prev_model r))
                            ((m_model_instances s ! nat (mi_prev_model r))
                               \<lparr>mi_next_model := mi_next_model r\<rparr>)
                     else s)"
  define s2 where "s2 = (if isValid (mi_next_model r)
                     then put_instance s1 (nat (mi_next_model r))
                            ((m_model_instances s1 ! nat (mi_next_model r))
                               \<lparr>mi_prev_model := mi_prev_model r\<rparr>)
                     else s1)"
  have e1: "instance_entities s1 = instance_entities s"
    by (simp add: s1_def put_instance_entities)
  have e2: "instance_entities s2 = instance_entities s1"
    by (simp add: s2_def put_instance_entities)
  from assms have "m_model_instances s' = m_model_instances s2"
    unfolding removeFromModelEntityMap_def Let_def r_def[symmetric] s1_def[symmetric] s2_def[symmetric]
    by (auto split: if_splits option.splits)
  thus ?thesis using e1 e2 by (simp add: instance_entities_def)
qed


lemma detach_model_entities:
  assumes "detach_model s i e om = Inr s'"
  shows "instance_entities s' = instance_entities s"
proof -
  from assms obtain s1 s2 where f: "freeCustomMeshes s i = Inr s1"
    and r: "removeFromModelEntityMap s1 om e = Inr s2"
    and c: "s' = culling_remove s2 e \<or> s' = s2"
    unfolding detach_model_def by (auto dest!: bindE_Inr split: if_splits)
  have "instance_entities s' = instance_entities s2" using c by auto
  also have "\<dots> = instance_entities s1" by (rule removeFromModelEntityMap_entities[OF r])
  also have "\<dots> = instance_entities s" by (rule freeCustomMeshes_entities[OF f])
  finally show ?thesis .
qed

lemma attach_model_entities:
  assumes "attach_model X s i e model = Inr s'"
  shows "instance_entities s' = instance_entities s"
proof -
  define s1 where "s1 = put_instance s i
                 ((m_model_instances s ! i)
                    \<lparr>mi_model := model, mi_meshes := NoMeshes,
                     mi_mesh_count := 0, mi_pose := None\<rparr>)"
  have e1: "instance_entities s1 = instance_entities s"
    by (simp add: s1_def put_instance_entities)
  from assms have "s' = s1 \<or> (\<exists>m. s' = addToModelEntityMap s1 m e)
        \<or> (\<exists>m. modelLoaded_entity X (addToModelEntityMap s1 m e) m e = Inr s')"
    unfolding attach_model_def s1_def[symmetric] Let_def
    by (auto split: option.splits if_splits)
  then show ?thesis
    using e1 by (auto simp: addToModelEntityMap_entities dest!: modelLoaded_entity_entities)
qed

lemma setModel_entities:
  assumes "setModel X s e model = Inr s'"
  shows "instance_entities s' = instance_entities s"
proof -
  define old where "old = mi_model (m_model_instances s ! nat e)"
  have range: "\<not> (e < 0 \<or> int (length (m_model_instances s)) \<le> e)"
    using assms by (rule contrapos_pp) (simp add: setModel_def)
  have valid: "isValid (mi_entity (m_model_instances s ! nat e))"
    using assms range by (rule_tac ccontr) (simp add: setModel_def Let_def)
  show ?thesis
  proof (cases "model = old \<and> old \<noteq> None")
    case True
    with assms range valid have "s' = s" by (simp add: setModel_def Let_def old_def)
    then show ?thesis by simp
  next
    case False
    with assms range valid have
      "bindE (case old of None \<Rightarrow> Inr s | Some om \<Rightarrow> detach_model s (nat e) e om)
         (\<lambda>s3. attach_model X s3 (nat e) e model) = Inr s'"
      by (auto simp: setModel_def Let_def old_def split: if_splits)
    then obtain s3 where
      d: "(case old of None \<Rightarrow> Inr s | Some om \<Rightarrow> detach_model s (nat e) e om) = Inr s3"
      and a: "attach_model X s3 (nat e) e model = Inr s'"
      by (blast dest: bindE_Inr)
    have "instance_entities s3 = instance_entities s"
      using d by (cases old) (simp_all add: detach_model_entities)
    moreover have "instance_entities s' = instance_entities s3"
      by (rule attach_model_entities[OF a])
    ultimately show ?thesis by simp
  qed
qed

lemma RenderSceneImpl_table_ok: "instance_table_ok (RenderSceneImpl universe engine)"
  by (simp add: instance_table_ok_def RenderSceneImpl_def)

lemma createModelInstance_table_ok:
  assumes "instance_table_ok s" and "createModelInstance s e = Inr s'"
  shows "instance_table_ok s'"
proof -
  from assms(2) have e0: "0 \<le> e" by (auto simp: createModelInstance_def split: if_splits)
  define hole where "hole = emplaced_instance\<lparr>mi_entity := INVALID_ENTITY, mi_model := None, mi_pose := None\<rparr>"
  define padded where "padded = m_model_instances s
                       @ replicate (nat e + 1 - length (m_model_instances s)) hole"
  define r where "r = (padded ! nat e)
                  \<lparr>mi_entity := e, mi_model := None, mi_meshes := NoMeshes,
                   mi_pose := None, mi_flags := {ENABLED}, mi_mesh_count := 0\<rparr>"
  have r: "mi_entity r = e" by (simp add: r_def)
  have tab: "m_model_instances s' = padded[nat e := r]"
    using assms(2) e0 unfolding createModelInstance_def Let_def hole_def[symmetric]
      padded_def[symmetric] r_def[symmetric]
    by (auto simp: onComponentCreated_def)
  have len: "nat e < length padded" by (simp add: padded_def)
  show ?thesis unfolding instance_table_ok_def
  proof (intro allI impI)
    fix i assume i: "i < length (m_model_instances s')"
    show "mi_entity (m_model_instances s' ! i) = int i
        \<or> mi_entity (m_model_instances s' ! i) = INVALID_ENTITY"
    proof (cases "i = nat e")
      case True
      then show ?thesis using r tab len e0 by simp
    next
      case False
      hence "m_model_instances s' ! i = padded ! i" using tab by simp
      moreover have "mi_entity (padded ! i) = int i \<or> mi_entity (padded ! i) = INVALID_ENTITY"
      proof (cases "i < length (m_model_instances s)")
        case True
        then show ?thesis using assms(1) by (simp add: padded_def nth_append instance_table_ok_def)
      next
        case False
        moreover have "i < length padded" using i tab by simp
        ultimately show ?thesis by (simp add: padded_def nth_append hole_def)
      qed
      ultimately show ?thesis by simp
    qed
  qed
qed

lemma setModel_table_ok:
  assumes "instance_table_ok s" and "setModel X s e model = Inr s'"
  shows "instance_table_ok s'"
  using assms setModel_entities[OF assms(2)] by (simp add: instance_table_ok_entities)

lemma destroyModelInstance_table_ok:
  assumes "instance_table_ok s" and "destroyModelInstance X s e = Inr s'"
  shows "instance_table_ok s'"
proof -
  from assms(2) obtain s1 where s1: "setModel X s e None = Inr s1"
    and s': "m_model_instances s' = (m_model_instances s1)[nat e :=
        (m_model_instances s1 ! nat e)\<lparr>mi_pose := None, mi_entity := INVALID_ENTITY\<rparr>]"
    by (auto simp: destroyModelInstance_def onComponentDestroyed_def put_instance_def
          split: sum.splits)
  have ok1: "instance_table_ok s1" by (rule setModel_table_ok[OF assms(1) s1])
  show ?thesis unfolding instance_table_ok_def
  proof (intro allI impI)
    fix i assume i: "i < length (m_model_instances s')"
    hence i1: "i < length (m_model_instances s1)" by (simp add: s')
    show "mi_entity (m_model_instances s' ! i) = int i
        \<or> mi_entity (m_model_instances s' ! i) = INVALID_ENTITY"
    proof (cases "i = nat e")
      case True
      then show ?thesis using i1 by (simp add: s')
    next
      case False
      then show ?thesis using ok1 i1 by (simp add: s' instance_table_ok_def)
    qed
  qed
qed

lemma enableModelInstance_table_ok:
  assumes "instance_table_ok s" and "enableModelInstance s e enable = Inr s'"
  shows "instance_table_ok s'"
proof -
  from assms(2) have "\<exists>f. m_model_instances s' = (m_model_instances s)[nat e :=
        (m_model_instances s ! nat e)\<lparr>mi_flags := f\<rparr>]"
    by (auto simp: enableModelInstance_def Let_def put_instance_def culling_add_def
          culling_remove_def split: if_splits option.splits sum.splits)
  then obtain f where "m_model_instances s' = (m_model_instances s)[nat e :=
        (m_model_instances s ! nat e)\<lparr>mi_flags := f\<rparr>]" by blast
  hence tab: "instance_entities s' = instance_entities s"
    by (simp add: instance_entities_def map_update)
       (metis list_update_beyond list_update_same_conv not_less nth_map length_map)
  show ?thesis using assms(1) unfolding instance_table_ok_entities tab .
qed

lemma length_write_i32: "length (write_i32 i) = 4"
  by (simp add: write_i32_def write_u32_def)

lemma take_count: "take 4 (write_i32 n @ rest) = write_i32 n"
  by (simp add: length_write_i32)

lemma entry_head:
  assumes "serializeModelInstance_entry C eng r = Inr bytes"
  shows "take 4 bytes = write_entity (mi_entity r)"
  using assms
  by (auto simp: serializeModelInstance_entry_def Let_def write_entity_def length_write_i32
        split: if_splits option.splits sum.splits)

lemma entries_split:
  assumes "serializeModelInstance_entries C eng rs = Inr bytes"
  shows "\<exists>entries. length entries = length rs \<and> bytes = concat entries
           \<and> (\<forall>k < length rs. serializeModelInstance_entry C eng (rs ! k) = Inr (entries ! k))"
  using assms
proof (induction rs arbitrary: bytes)
  case Nil
  then show ?case by simp
next
  case (Cons r rs)
  from Cons.prems obtain b rest where b: "serializeModelInstance_entry C eng r = Inr b"
    and rest: "serializeModelInstance_entries C eng rs = Inr rest" and bytes: "bytes = b @ rest"
    by (auto split: sum.splits)
  from Cons.IH[OF rest] obtain entries where len: "length entries = length rs"
    and cat: "rest = concat entries"
    and each: "\<forall>k < length rs. serializeModelInstance_entry C eng (rs ! k) = Inr (entries ! k)"
    by blast
  have "\<forall>k < length (r # rs). serializeModelInstance_entry C eng ((r # rs) ! k) = Inr ((b # entries) ! k)"
    using b each by (auto simp: nth_Cons split: nat.splits)
  then show ?case using len cat bytes by (intro exI[of _ "b # entries"]) simp
qed

text \<open>
  Claim C7. When the whole-scene \<open>serialize\<close> returns a blob, the blob is the nine sections
  in the order cameras, model instances, lights, terrains, particle emitters, bone
  attachments, environment probes, decals, text meshes; each section starts with the
  count of its table (the lights section with the count of the point lights); and the
  model-instance section is its count followed by one entry per slot of the table, in
  the order of the slots, each entry starting with the entity of its slot, which in a
  table that satisfies the invariant above is the position of the slot or the invalid
  entity.
\<close>

theorem serialize_sections:
  assumes ok: "instance_table_ok s"
    and run: "serialize C s = Inr blob"
  shows "\<exists>model_instances entries.
      serializeModelInstances C s = Inr model_instances
    \<and> blob = serializeCameras C s @ model_instances @ serializeLights C s
             @ serializeTerrains C s @ serializeParticleEmitters C s
             @ serializeBoneAttachments C s @ serializeEnvironmentProbes C s
             @ serializeDecals C s @ serializeTextMeshes C s
    \<and> take 4 (serializeCameras C s) = write_i32 (int (length (m_cameras s)))
    \<and> take 4 model_instances = write_i32 (int (length (m_model_instances s)))
    \<and> take 4 (serializeLights C s) = write_i32 (int (length (m_point_lights s)))
    \<and> take 4 (serializeTerrains C s) = write_i32 (int (length (m_terrains s)))
    \<and> take 4 (serializeParticleEmitters C s) = write_i32 (int (length (m_particle_emitters s)))
    \<and> take 4 (serializeBoneAttachments C s) = write_i32 (int (length (m_bone_attachments s)))
    \<and> take 4 (serializeEnvironmentProbes C s) = write_i32 (int (length (m_environment_probes s)))
    \<and> take 4 (serializeDecals C s) = write_i32 (int (length (m_decals s)))
    \<and> take 4 (serializeTextMeshes C s) = write_i32 (int (length (m_text_meshes s)))
    \<and> length entries = length (m_model_instances s)
    \<and> model_instances = write_i32 (int (length (m_model_instances s))) @ concat entries
    \<and> (\<forall>k < length (m_model_instances s).
          serializeModelInstance_entry C (m_engine s) (m_model_instances s ! k) = Inr (entries ! k)
          \<and> take 4 (entries ! k) = write_entity (mi_entity (m_model_instances s ! k))
          \<and> (mi_entity (m_model_instances s ! k) = int k
               \<or> mi_entity (m_model_instances s ! k) = INVALID_ENTITY))"
proof -
  from run obtain mi where mi: "serializeModelInstances C s = Inr mi"
    and blob: "blob = serializeCameras C s @ mi @ serializeLights C s
             @ serializeTerrains C s @ serializeParticleEmitters C s
             @ serializeBoneAttachments C s @ serializeEnvironmentProbes C s
             @ serializeDecals C s @ serializeTextMeshes C s"
    by (auto simp: serialize_def split: sum.splits)
  from mi obtain bytes where
    bytes: "serializeModelInstance_entries C (m_engine s) (m_model_instances s) = Inr bytes"
    and mi_eq: "mi = write_i32 (int (length (m_model_instances s))) @ bytes"
    by (auto simp: serializeModelInstances_def split: sum.splits)
  from entries_split[OF bytes] obtain entries where len: "length entries = length (m_model_instances s)"
    and cat: "bytes = concat entries"
    and each: "\<forall>k < length (m_model_instances s).
        serializeModelInstance_entry C (m_engine s) (m_model_instances s ! k) = Inr (entries ! k)"
    by blast
  have heads: "\<forall>k < length (m_model_instances s).
      take 4 (entries ! k) = write_entity (mi_entity (m_model_instances s ! k))"
    using each entry_head by blast
  have pos: "\<forall>k < length (m_model_instances s).
      mi_entity (m_model_instances s ! k) = int k \<or> mi_entity (m_model_instances s ! k) = INVALID_ENTITY"
    using ok by (simp add: instance_table_ok_def)
  have c1: "take 4 (serializeCameras C s) = write_i32 (int (length (m_cameras s)))"
    unfolding serializeCameras_def by (rule take_count)
  have c2: "take 4 mi = write_i32 (int (length (m_model_instances s)))"
    unfolding mi_eq by (rule take_count)
  have c3: "take 4 (serializeLights C s) = write_i32 (int (length (m_point_lights s)))"
    unfolding serializeLights_def by (rule take_count)
  have c4: "take 4 (serializeTerrains C s) = write_i32 (int (length (m_terrains s)))"
    unfolding serializeTerrains_def by (rule take_count)
  have c5: "take 4 (serializeParticleEmitters C s) = write_i32 (int (length (m_particle_emitters s)))"
    unfolding serializeParticleEmitters_def by (rule take_count)
  have c6: "take 4 (serializeBoneAttachments C s) = write_i32 (int (length (m_bone_attachments s)))"
    unfolding serializeBoneAttachments_def by (rule take_count)
  have c7: "take 4 (serializeEnvironmentProbes C s) = write_i32 (int (length (m_environment_probes s)))"
    unfolding serializeEnvironmentProbes_def by (rule take_count)
  have c8: "take 4 (serializeDecals C s) = write_i32 (int (length (m_decals s)))"
    unfolding serializeDecals_def by (rule take_count)
  have c9: "take 4 (serializeTextMeshes C s) = write_i32 (int (length (m_text_meshes s)))"
    unfolding serializeTextMeshes_def by (rule take_count)
  show ?thesis
    using mi blob c1 c2 c3 c4 c5 c6 c7 c8 c9 len mi_eq cat each heads pos
    by (intro exI[of _ mi] exI[of _ entries]) simp
qed

lemmas sparse_defs = sparse_scene_def createModelInstance_def createCamera_def
  RenderSceneImpl_def onComponentCreated_def emplaced_instance_def Let_def isValid_def
  INVALID_ENTITY_def

lemma sparse_entities: "map mi_entity (m_model_instances sparse_scene) = [-1, -1, 2]"
  by (simp add: sparse_defs numeral_3_eq_3)

lemma sparse_ok: "instance_table_ok sparse_scene"
  unfolding instance_table_ok_def sparse_scene_def
  by (simp add: createModelInstance_def createCamera_def RenderSceneImpl_def
        onComponentCreated_def emplaced_instance_def Let_def isValid_def numeral_3_eq_3
        INVALID_ENTITY_def less_Suc_eq)

lemma sparse_run: "serialize demo_codec sparse_scene = Inr sparse_blob"
  unfolding sparse_blob_def
  by (simp add: sparse_defs numeral_3_eq_3 serialize_def serializeModelInstances_def serializeModelInstance_entry_def
     demo_codec_def)

theorem serialize_sections_witness:
  "instance_table_ok sparse_scene
   \<and> serialize demo_codec sparse_scene = Inr sparse_blob
   \<and> map mi_entity (m_model_instances sparse_scene) = [INVALID_ENTITY, INVALID_ENTITY, 2]
   \<and> take 4 sparse_blob = write_i32 1
   \<and> (\<exists>model_instances entries.
         serializeModelInstances demo_codec sparse_scene = Inr model_instances
       \<and> take 4 model_instances = write_i32 3
       \<and> model_instances = write_i32 3 @ concat entries
       \<and> map (take 4) entries
           = [write_entity INVALID_ENTITY, write_entity INVALID_ENTITY, write_entity 2])"
proof -
  from serialize_sections [OF sparse_ok sparse_run]
  obtain model_instances entries where
    mi: "serializeModelInstances demo_codec sparse_scene = Inr model_instances"
    and blob: "sparse_blob = serializeCameras demo_codec sparse_scene @ model_instances
             @ serializeLights demo_codec sparse_scene
             @ serializeTerrains demo_codec sparse_scene @ serializeParticleEmitters demo_codec sparse_scene
             @ serializeBoneAttachments demo_codec sparse_scene @ serializeEnvironmentProbes demo_codec sparse_scene
             @ serializeDecals demo_codec sparse_scene @ serializeTextMeshes demo_codec sparse_scene"
    and cams: "take 4 (serializeCameras demo_codec sparse_scene) = write_i32 (int (length (m_cameras sparse_scene)))"
    and cnt: "take 4 model_instances = write_i32 (int (length (m_model_instances sparse_scene)))"
    and len: "length entries = length (m_model_instances sparse_scene)"
    and cat: "model_instances = write_i32 (int (length (m_model_instances sparse_scene))) @ concat entries"
    and each: "\<forall>k < length (m_model_instances sparse_scene).
          take 4 (entries ! k) = write_entity (mi_entity (m_model_instances sparse_scene ! k))"
    by blast
  have n: "length (m_model_instances sparse_scene) = 3"
    using sparse_entities by (metis length_map length_Cons list.size(3) numeral_3_eq_3)
  have ncam: "length (m_cameras sparse_scene) = 1"
    by (simp add: sparse_defs)
  have ents: "map mi_entity (m_model_instances sparse_scene) = [INVALID_ENTITY, INVALID_ENTITY, 2]"
    using sparse_entities by (simp add: INVALID_ENTITY_def)
  have e0: "mi_entity (m_model_instances sparse_scene ! 0) = INVALID_ENTITY"
    and e1: "mi_entity (m_model_instances sparse_scene ! 1) = INVALID_ENTITY"
    and e2: "mi_entity (m_model_instances sparse_scene ! 2) = 2"
    using ents n by (metis nth_map nth_Cons_0 zero_less_numeral) 
       (simp_all add: sparse_defs numeral_3_eq_3)
  from len n obtain a b c where abc: "entries = [a, b, c]"
    by (auto simp: numeral_3_eq_3 length_Suc_conv)
  have "take 4 a = write_entity INVALID_ENTITY"
    using each n e0 abc by (metis nth_Cons_0 zero_less_numeral)
  moreover have "take 4 b = write_entity INVALID_ENTITY"
    using each[rule_format, of 1] n e1 abc by simp
  moreover have "take 4 c = write_entity 2"
    using each[rule_format, of 2] n e2 abc by simp
  ultimately have heads: "map (take 4) entries
           = [write_entity INVALID_ENTITY, write_entity INVALID_ENTITY, write_entity 2]"
    using abc by simp
  have first: "take 4 sparse_blob = write_i32 1"
    using cams ncam unfolding blob by (simp add: serializeCameras_def length_write_i32)
  show ?thesis
    using sparse_ok sparse_run ents first mi cnt cat heads n by auto
qed

lemmas probe_defs = probe_scene_def setEnvironmentProbeRadius_def createEnvironmentProbe_def
  RenderSceneImpl_def onComponentCreated_def inserted_probe_def assoc_put_def Let_def
  PROBE_ENABLED_def PROBE_REFLECTION_def serializeEnvironmentProbes_def
  deserializeEnvironmentProbes_def deserializeEnvironmentProbe_entry_def
  write_i32_def write_entity_def write_u32_def write_u64_def write_u16_def write_f32_def
  read_i32_def read_u32_def read_u64_def read_u16_def read_bytes_def

text \<open>
  Claim C1, at the input where the code departs from it. \<open>serializeEnvironmentProbes\<close>
  writes, per probe, the entity, the radius, the guid, the flags and the three sizes;
  \<open>deserializeEnvironmentProbes\<close> reads the entity, the guid, the flags and the three
  sizes, and no radius. For the third example the section is 30 bytes long; reading it
  into a new scene takes 26 of them: the guid is read from the bytes of the radius and
  the low half of the guid, the flags from the high half of the guid, and so on, and the
  last four bytes stay unread, where the next section would be read from. The probe read
  back differs in its persisted fields, and writing the new scene does not give the same
  bytes.
\<close>

theorem probe_section_misaligned:
  "\<exists>s orig s' back rest.
     probe_scene C = Inr s
     \<and> m_environment_probes s = [(5, orig)]
     \<and> probe_radius orig = 3 \<and> probe_guid orig = 0x0123456789ABCDEF \<and> probe_flags orig = 4
     \<and> probe_radiance_size orig = 128 \<and> probe_irradiance_size orig = 32
     \<and> probe_reflection_size orig = 1024
     \<and> length (serializeEnvironmentProbes C s) = 30
     \<and> deserializeEnvironmentProbes C (RenderSceneImpl blank_universe blank_engine)
          (serializeEnvironmentProbes C s) = Inr (s', rest)
     \<and> m_environment_probes s' = [(5, back)]
     \<and> probe_radius back = 0 \<and> probe_flags back = 0x01234567
     \<and> probe_radiance_size back = 4 \<and> probe_irradiance_size back = 0
     \<and> probe_reflection_size back = 128
     \<and> rest = write_u16 32 @ write_u16 1024
     \<and> serializeEnvironmentProbes C s' \<noteq> serializeEnvironmentProbes C s"
proof -
  define fresh where "fresh = RenderSceneImpl blank_universe blank_engine"
  define orig where "orig = inserted_probe
            \<lparr>probe_texture := Some (load_texture C ''models/common/default_probe.dds''),
             probe_irradiance := Some (load_texture C ''models/common/default_probe.dds''),
             probe_radiance := Some (load_texture C ''models/common/default_probe.dds''),
             probe_radius := 3, probe_flags := 4, probe_guid := 0x0123456789ABCDEF\<rparr>"
  define s where "s = onComponentCreated (fresh\<lparr>m_environment_probes := [(5, orig)]\<rparr>)
                        5 ENVIRONMENT_PROBE_TYPE"
  have built: "probe_scene C = Inr s"
    by (simp add: probe_defs s_def orig_def fresh_def)
  have probes: "m_environment_probes s = [(5, orig)]"
    by (simp add: s_def onComponentCreated_def)
  have written: "serializeEnvironmentProbes C s =
      write_i32 1 @ write_entity 5 @ write_f32 C 3 @ write_u64 0x0123456789ABCDEF
      @ write_u32 4 @ write_u16 128 @ write_u16 32 @ write_u16 1024"
    by (simp add: serializeEnvironmentProbes_def probes orig_def inserted_probe_def)
  have len: "length (serializeEnvironmentProbes C s) = 30"
    unfolding written
    by (simp add: write_i32_def write_entity_def write_f32_def write_u32_def write_u64_def
          write_u16_def)
  define got where "got = inserted_probe
      \<lparr>probe_guid := le_word (write_f32 C 3 @ take 4 (write_u64 0x0123456789ABCDEF)),
       probe_flags := 0x01234567, probe_radiance_size := 4, probe_irradiance_size := 0,
       probe_reflection_size := 128,
       probe_texture := Some (load_texture C (''universes/'' @ universe_name C @ ''/probes/''
          @ guid_text C (le_word (write_f32 C 3 @ take 4 (write_u64 0x0123456789ABCDEF))) @ ''.dds'')),
       probe_irradiance := Some (load_texture C (''universes/'' @ universe_name C @ ''/probes/''
          @ guid_text C (le_word (write_f32 C 3 @ take 4 (write_u64 0x0123456789ABCDEF)))
          @ ''_irradiance.dds'')),
       probe_radiance := Some (load_texture C (''universes/'' @ universe_name C @ ''/probes/''
          @ guid_text C (le_word (write_f32 C 3 @ take 4 (write_u64 0x0123456789ABCDEF)))
          @ ''_radiance.dds''))\<rparr>"
  define s' where "s' = onComponentCreated (fresh\<lparr>m_environment_probes := [(5, got)]\<rparr>)
                         5 ENVIRONMENT_PROBE_TYPE"
  have read: "deserializeEnvironmentProbes C fresh (serializeEnvironmentProbes C s) =
      Inr (s', write_u16 32 @ write_u16 1024)"
    unfolding written
    by (simp add: probe_defs s'_def got_def fresh_def)
  have probes': "m_environment_probes s' = [(5, got)]"
    by (simp add: s'_def onComponentCreated_def)
  have differ: "serializeEnvironmentProbes C s' \<noteq> serializeEnvironmentProbes C s"
    unfolding written
    by (simp add: serializeEnvironmentProbes_def probes' got_def inserted_probe_def
          write_i32_def write_entity_def write_f32_def write_u32_def write_u64_def write_u16_def)
  show ?thesis
    using built probes len read[unfolded fresh_def] probes' differ
    by (intro exI[of _ s] exI[of _ orig] exI[of _ s'] exI[of _ got]
          exI[of _ "write_u16 32 @ write_u16 1024"])
       (simp add: orig_def got_def inserted_probe_def)
qed

section \<open>Properties of the visible mesh instances\<close>







lemmas lod_defs = lod_scene_def lod_engine_def lod_model_def createModelInstance_def
  onComponentCreated_def RenderSceneImpl_def emplaced_instance_def Let_def bindE_def
  setModel_def detach_model_def attach_model_def isValid_def INVALID_ENTITY_def
  put_instance_def addToModelEntityMap_def hasCustomMeshes_def blank_model_def
  blank_material_def culling_add_def modelLoaded_entity_def bind_meshes_def getLayerMask_def
  meshes_view_def blank_universe_def rest_transform_def getPosition_def getTransform_def

lemma lod_scene_instance:
  "map mi_meshes (m_model_instances lod_scene) = [ModelMeshes 4]"
  "map mi_model (m_model_instances lod_scene) = [Some 4]"
  "m_culling_system lod_scene = {0}"
  by (simp_all add: lod_defs)




section \<open>Properties of ray casting\<close>


lemma instance_hit_t [simp]: "hit_t (instance_hit ext s origin dir i) = hit_t (precise_hit ext s origin dir i)"
  by (simp add: instance_hit_def)

lemma instance_hit_is_hit [simp]:
  "hit_is_hit (instance_hit ext s origin dir i) = hit_is_hit (precise_hit ext s origin dir i)"
  by (simp add: instance_hit_def)

























end
